theory Spec2Isabelle
  imports Main "HOL-Library.Word" "HOL-Library.Sublist"
begin

section \<open>JavaScript values\<close>

text \<open>
  A JavaScript string is a sequence of UTF-16 code units. \<open>js\<close> writes an ASCII literal
  as such a sequence; it is used for the constants of the source and for example inputs.
\<close>

type_synonym js_string = "16 word list"

definition js :: "string \<Rightarrow> js_string" where
  "js s = map (\<lambda>c. of_nat (of_char c)) s"

text \<open>
  An optional string (\<open>string | null\<close>, \<open>field?: string\<close>) is a \<open>js_string option\<close>.
  \<open>truthy\<close> is the test JavaScript applies in \<open>if (v)\<close>, \<open>!v\<close>, \<open>v || w\<close>
  and \<open>v && w\<close>: \<open>null\<close>, \<open>undefined\<close> and the empty string are falsy.
\<close>

definition truthy :: "js_string option \<Rightarrow> bool" where
  "truthy v = (case v of None \<Rightarrow> False | Some s \<Rightarrow> s \<noteq> [])"

text \<open>\<open>v || null\<close>\<close>

definition or_null :: "js_string option \<Rightarrow> js_string option" where
  "or_null v = (if truthy v then v else None)"

text \<open>\<open>a || b\<close> on optional strings\<close>

definition or_else :: "js_string option \<Rightarrow> js_string option \<Rightarrow> js_string option" where
  "or_else a b = (if truthy a then a else b)"

text \<open>
  An object made by \<open>JSON.parse\<close> or by \<open>{}\<close> is a map from its own keys to their
  values, and inherits from \<open>Object.prototype\<close>. Reading a key that is no own key gives
  the member of \<open>Object.prototype\<close> of that name when there is one (a function, or
  the prototype itself for \<open>__proto__\<close>), and \<open>undefined\<close> otherwise.
\<close>

definition object_prototype_members :: "js_string list" where
  "object_prototype_members =
     map js
       [''constructor'', ''__defineGetter__'', ''__defineSetter__'', ''hasOwnProperty'',
        ''__lookupGetter__'', ''__lookupSetter__'', ''isPrototypeOf'', ''propertyIsEnumerable'',
        ''toString'', ''valueOf'', ''__proto__'', ''toLocaleString'']"

definition inherited :: "js_string \<Rightarrow> bool" where
  "inherited key = (key \<in> set object_prototype_members)"

text \<open>
  \<open>obj[key] = v\<close>. When \<open>__proto__\<close> is no own key the assignment goes to the setter
  of \<open>Object.prototype\<close>: an object becomes the prototype, a string is ignored, and in
  both cases no key is created, so \<open>JSON.stringify\<close> writes none.
\<close>

definition assign_property ::
  "(js_string \<rightharpoonup> 'v) \<Rightarrow> js_string \<Rightarrow> 'v \<Rightarrow> (js_string \<rightharpoonup> 'v)" where
  "assign_property obj key v =
     (if key = js ''__proto__'' \<and> obj key = None then obj else obj(key \<mapsto> v))"

text \<open>
  \<open>Array.prototype.findIndex\<close>: the index of the first element that satisfies the
  predicate, \<open>-1\<close> when there is none.
\<close>

fun findIndex_from :: "('a \<Rightarrow> bool) \<Rightarrow> 'a list \<Rightarrow> int \<Rightarrow> int" where
  "findIndex_from P [] i = -1"
| "findIndex_from P (x # xs) i = (if P x then i else findIndex_from P xs (i + 1))"

definition findIndex :: "('a \<Rightarrow> bool) \<Rightarrow> 'a list \<Rightarrow> int" where
  "findIndex P xs = findIndex_from P xs 0"

text \<open>Everything that can reject a promise or throw in the modelled code.\<close>

datatype error =
    FetchError          \<comment> \<open>\<open>fetch\<close> or \<open>response.json()\<close> rejected\<close>
  | ApiError nat        \<comment> \<open>\<open>throw new Error(...)\<close> on a response that is not ok\<close>
  | TypeError           \<comment> \<open>property read on \<open>undefined\<close>\<close>
  | AgentIdError        \<comment> \<open>\<open>getAgentId\<close> rejected\<close>

text \<open>
  The outcome of one \<open>fetch\<close> call followed by \<open>response.json()\<close>: the promise is
  rejected, or a response arrives with its status and its body (\<open>None\<close> when the body
  is not JSON of the expected type). \<open>response.ok\<close> holds for the statuses 200 to 299.
\<close>

datatype 'a response = Fetch_rejected | Http nat "'a option"

definition ok :: "nat \<Rightarrow> bool" where
  "ok status = (200 \<le> status \<and> status \<le> 299)"

section \<open>Message cursor tracker\<close>

text \<open>
  \<open>interface LettaMessage\<close> and \<open>interface MessageInfo\<close> of both scripts. The fields
  \<open>id\<close>, \<open>text\<close> and \<open>date\<close> occur in both interfaces and are prefixed here.
\<close>

record LettaMessage =
  msg_id :: js_string
  message_type :: js_string
  content :: "js_string option"
  msg_text :: "js_string option"
  msg_date :: "js_string option"

record MessageInfo =
  info_id :: js_string
  info_text :: js_string
  info_date :: "js_string option"

record fetch_result =
  messages :: "MessageInfo list"
  lastMessageId :: "js_string option"

text \<open>
  The body of the \<open>for\<close> loop. \<open>const text = msg.content || msg.text\<close>; the test
  \<open>text && typeof text === 'string'\<close> is \<open>has_text\<close> (both fields are strings by
  their declared type), the object literal that is pushed is \<open>message_info\<close>.
\<close>

definition has_text :: "LettaMessage \<Rightarrow> bool" where
  "has_text msg = truthy (or_else (content msg) (msg_text msg))"

definition message_info :: "LettaMessage \<Rightarrow> MessageInfo" where
  "message_info msg =
     \<lparr>info_id = msg_id msg,
      info_text = (case or_else (content msg) (msg_text msg) of Some text \<Rightarrow> text | None \<Rightarrow> []),
      info_date = or_null (msg_date msg)\<rparr>"

definition push_message :: "LettaMessage \<Rightarrow> MessageInfo list \<Rightarrow> MessageInfo list" where
  "push_message msg newMessages =
     (if has_text msg then newMessages @ [message_info msg] else newMessages)"

text \<open>
  \<open>for (let i = 0; i < endIndex; i++) { const msg = assistantMessages[i]; ... }\<close>.
  Reading past the end of the array gives \<open>undefined\<close>, and \<open>msg.content\<close> then throws.
\<close>

function new_messages_loop ::
  "LettaMessage list \<Rightarrow> int \<Rightarrow> int \<Rightarrow> MessageInfo list \<Rightarrow> error + MessageInfo list" where
  "new_messages_loop assistantMessages endIndex i newMessages =
     (if i < endIndex then
        (if 0 \<le> i \<and> i < int (length assistantMessages) then
           new_messages_loop assistantMessages endIndex (i + 1)
             (push_message (assistantMessages ! nat i) newMessages)
         else Inl TypeError)
      else Inr newMessages)"
  by pat_completeness auto
termination
  by (relation "measure (\<lambda>(assistantMessages, endIndex, i, newMessages). nat (endIndex - i))") auto

declare new_messages_loop.simps [simp del]

definition is_assistant :: "LettaMessage \<Rightarrow> bool" where
  "is_assistant msg = (message_type msg = js ''assistant_message'')"

text \<open>
  The part of \<open>fetchAssistantMessages\<close> and of \<open>fetchNewMessages\<close> after
  \<open>response.json()\<close>; the two functions have the same statements there.
\<close>

definition new_since :: "LettaMessage list \<Rightarrow> js_string option \<Rightarrow> error + fetch_result" where
  "new_since allMessages lastSeenMessageId =
     (let assistantMessages = filter is_assistant allMessages;
          endIndex =
            (if truthy lastSeenMessageId then
               (let lastSeenIndex =
                      findIndex (\<lambda>msg. Some (msg_id msg) = lastSeenMessageId) assistantMessages
                in if lastSeenIndex \<noteq> -1 then lastSeenIndex
                   else int (length assistantMessages))
             else int (length assistantMessages))
      in case new_messages_loop assistantMessages endIndex 0 [] of
           Inl e \<Rightarrow> Inl e
         | Inr newMessages \<Rightarrow>
             Inr \<lparr>messages = newMessages,
                  lastMessageId =
                    (if length assistantMessages > 0 then Some (msg_id (assistantMessages ! 0))
                     else lastSeenMessageId)\<rparr>)"

text \<open>
  \<open>fetchAssistantMessages\<close> of \<^verbatim>\<open>sync_letta_memory.ts\<close> (\<open>limit=50\<close>) and
  \<open>fetchNewMessages\<close> of \<^verbatim>\<open>pretool_sync.ts\<close> (\<open>limit=20\<close>). The remote side is
  the first argument: the outcome of the GET request, which is only made when
  \<open>conversationId\<close> is truthy.
\<close>

definition fetchAssistantMessages ::
  "LettaMessage list response \<Rightarrow> js_string option \<Rightarrow> js_string option \<Rightarrow> error + fetch_result" where
  "fetchAssistantMessages response conversationId lastSeenMessageId =
     (if \<not> truthy conversationId then Inr \<lparr>messages = [], lastMessageId = None\<rparr>
      else case response of
          Fetch_rejected \<Rightarrow> Inl FetchError
        | Http status body \<Rightarrow>
            if \<not> ok status then Inr \<lparr>messages = [], lastMessageId = lastSeenMessageId\<rparr>
            else (case body of
                    None \<Rightarrow> Inl FetchError
                  | Some allMessages \<Rightarrow> new_since allMessages lastSeenMessageId))"

definition fetchNewMessages ::
  "LettaMessage list response \<Rightarrow> js_string option \<Rightarrow> js_string option \<Rightarrow> error + fetch_result" where
  "fetchNewMessages response conversationId lastSeenMessageId =
     (if \<not> truthy conversationId then Inr \<lparr>messages = [], lastMessageId = None\<rparr>
      else case response of
          Fetch_rejected \<Rightarrow> Inl FetchError
        | Http status body \<Rightarrow>
            if \<not> ok status then Inr \<lparr>messages = [], lastMessageId = lastSeenMessageId\<rparr>
            else (case body of
                    None \<Rightarrow> Inl FetchError
                  | Some allMessages \<Rightarrow> new_since allMessages lastSeenMessageId))"

section \<open>Memory diff engine\<close>

text \<open>
  \<open>interface MemoryBlock\<close> of \<^verbatim>\<open>conversation_utils.ts\<close>; the interface of
  \<^verbatim>\<open>pretool_sync.ts\<close> has the fields \<open>label\<close> and \<open>value\<close> only. An object
  \<open>{ [label: string]: string }\<close> is a map from labels to values; \<open>null\<close> and a
  missing field are \<open>None\<close>.
\<close>

record MemoryBlock =
  label :: js_string
  description :: js_string
  block_value :: js_string

type_synonym block_values = "js_string \<rightharpoonup> js_string"

text \<open>
  \<open>detectChangedBlocks\<close> of \<^verbatim>\<open>sync_letta_memory.ts\<close>.
  \<open>lastBlockValues[block.label]\<close> is \<open>undefined\<close> for a label that is no key of the
  object. (For a label that names a member of \<open>Object.prototype\<close> the lookup gives
  that member, which is not a string: the block counts as changed, as it does here.)
\<close>

definition detectChangedBlocks :: "MemoryBlock list \<Rightarrow> block_values option \<Rightarrow> MemoryBlock list" where
  "detectChangedBlocks currentBlocks lastBlockValues =
     (case lastBlockValues of
        None \<Rightarrow> []
      | Some previous \<Rightarrow>
          filter (\<lambda>block.
                    let previousValue = previous (label block)
                    in previousValue = None \<or> previousValue \<noteq> Some (block_value block))
                 currentBlocks)"

text \<open>\<open>detectChangedBlocks\<close> of \<^verbatim>\<open>pretool_sync.ts\<close>.\<close>

definition detectChangedBlocks_pretool ::
  "MemoryBlock list \<Rightarrow> block_values option \<Rightarrow> MemoryBlock list" where
  "detectChangedBlocks_pretool currentBlocks lastBlockValues =
     (case lastBlockValues of
        None \<Rightarrow> []
      | Some previous \<Rightarrow>
          filter (\<lambda>block.
                    let previousValue = previous (label block)
                    in previousValue = None \<or> previousValue \<noteq> Some (block_value block))
                 currentBlocks)"

text \<open>
  \<open>String.prototype.split\<close> with a one-character separator: the pieces between the
  occurrences of the separator; the empty string has the single piece \<open>""\<close>.
\<close>

fun split :: "16 word \<Rightarrow> js_string \<Rightarrow> js_string list" where
  "split sep [] = [[]]"
| "split sep (c # cs) =
     (if c = sep then [] # split sep cs
      else (case split sep cs of
              [] \<Rightarrow> [[c]]
            | piece # pieces \<Rightarrow> (c # piece) # pieces))"

text \<open>
  \<open>String.prototype.trim\<close> removes the code units of WhiteSpace and LineTerminator
  from both ends: TAB, LF, VT, FF, CR, SP, NBSP, U+1680, U+2000 to U+200A, LS, PS,
  U+202F, U+205F, U+3000 and U+FEFF.
\<close>

definition is_whitespace :: "16 word \<Rightarrow> bool" where
  "is_whitespace c =
     (c = 0x09 \<or> c = 0x0A \<or> c = 0x0B \<or> c = 0x0C \<or> c = 0x0D \<or> c = 0x20 \<or> c = 0xA0
      \<or> c = 0x1680 \<or> (0x2000 \<le> c \<and> c \<le> 0x200A) \<or> c = 0x2028 \<or> c = 0x2029
      \<or> c = 0x202F \<or> c = 0x205F \<or> c = 0x3000 \<or> c = 0xFEFF)"

definition trim :: "js_string \<Rightarrow> js_string" where
  "trim s = rev (dropWhile is_whitespace (rev (dropWhile is_whitespace s)))"

text \<open>\<open>v.split('\\n').map(l => l.trim()).filter(l => l)\<close>\<close>

definition trimmed_lines :: "js_string \<Rightarrow> js_string list" where
  "trimmed_lines v = filter (\<lambda>l. l \<noteq> []) (map trim (split 0x0A v))"

record diff =
  added :: "js_string list"
  removed :: "js_string list"

text \<open>
  \<open>computeDiff\<close> of \<^verbatim>\<open>sync_letta_memory.ts\<close>. \<open>new Set(lines)\<close> is the set of the
  list's elements and \<open>has\<close> is membership.
\<close>

definition computeDiff :: "js_string \<Rightarrow> js_string \<Rightarrow> diff" where
  "computeDiff oldValue newValue =
     (let oldLines = trimmed_lines oldValue;
          newLines = trimmed_lines newValue;
          oldSet = set oldLines;
          newSet = set newLines
      in \<lparr>added = filter (\<lambda>line. line \<notin> oldSet) newLines,
          removed = filter (\<lambda>line. line \<notin> newSet) oldLines\<rparr>)"

section \<open>State store and conversation resolver\<close>

text \<open>
  \<open>interface SyncState\<close>, \<open>ConversationEntry\<close>, \<open>ConversationsMap\<close> and
  \<open>Conversation\<close> of \<^verbatim>\<open>conversation_utils.ts\<close>. A value of the map is
  \<open>string | ConversationEntry\<close>: the bare string is the legacy shape.
\<close>

record SyncState =
  lastProcessedIndex :: int
  sessionId :: js_string
  conversationId :: "js_string option"
  lastBlockValues :: "block_values option"
  lastSeenMessageId :: "js_string option"

record ConversationEntry =
  entry_conversationId :: js_string
  entry_agentId :: js_string

datatype cached = Legacy js_string | Entry ConversationEntry

type_synonym ConversationsMap = "js_string \<rightharpoonup> cached"

record Conversation =
  conv_id :: js_string
  conv_agent_id :: js_string
  created_at :: "js_string option"

record Agent =
  agent_id :: js_string
  agent_name :: js_string
  agent_description :: "js_string option"
  blocks :: "MemoryBlock list option"

text \<open>
  What the formatters receive. The rendering to text (XML escaping, templates, JSON) is
  not modelled.
\<close>

record payload =
  from_agent :: Agent
  new_messages :: "MessageInfo list"
  changed_blocks :: "MemoryBlock list"
  previous_values :: "block_values option"

text \<open>
  The effects of one invocation, in program order: lines on standard error, the write
  of \<^verbatim>\<open>CLAUDE.md\<close>, the line on standard output, the POST that creates a
  conversation, the writes of \<^verbatim>\<open>conversations.json\<close> and of the session record,
  the hand-over to the background worker, and \<open>process.exit\<close>. Writes to the file
  system are taken to succeed.
\<close>

datatype event =
    Stderr
  | UpdateClaudeMd js_string Agent "js_string option"
  | Stdout payload
  | PostConversation js_string
  | SaveConversationsMap ConversationsMap
  | WritePayloadFile js_string js_string js_string int
  | SpawnWorker
  | SaveSyncState js_string SyncState
  | Exit nat

text \<open>
  \<open>loadSyncState\<close>: the first argument is the content of the session record file,
  \<open>None\<close> when the file does not exist or does not parse.
\<close>

definition loadSyncState :: "SyncState option \<Rightarrow> js_string \<Rightarrow> SyncState" where
  "loadSyncState session_file sid =
     (case session_file of
        Some state \<Rightarrow> state
      | None \<Rightarrow> \<lparr>lastProcessedIndex = -1, sessionId = sid, conversationId = None,
                 lastBlockValues = None, lastSeenMessageId = None\<rparr>)"

text \<open>\<open>loadConversationsMap\<close>, on the content of \<^verbatim>\<open>conversations.json\<close>.\<close>

definition loadConversationsMap :: "ConversationsMap option \<Rightarrow> ConversationsMap" where
  "loadConversationsMap conversations_file =
     (case conversations_file of Some m \<Rightarrow> m | None \<Rightarrow> Map.empty)"

text \<open>\<open>createConversation\<close>, on the outcome of the POST request.\<close>

definition createConversation :: "Conversation response \<Rightarrow> error + js_string" where
  "createConversation response =
     (case response of
        Fetch_rejected \<Rightarrow> Inl FetchError
      | Http status body \<Rightarrow>
          if \<not> ok status then Inl (ApiError status)
          else (case body of None \<Rightarrow> Inl FetchError | Some conversation \<Rightarrow> Inr (conv_id conversation)))"

text \<open>
  The statements that \<open>getOrCreateConversation\<close> repeats in its three creating
  branches: create the conversation, store the pair in the map, save the map, set
  \<open>state.conversationId\<close>. A rejected creation leaves map and state as they were.
\<close>

definition create_and_store ::
  "Conversation response \<Rightarrow> js_string \<Rightarrow> js_string \<Rightarrow> ConversationsMap \<Rightarrow> SyncState \<Rightarrow>
   (error + js_string) \<times> SyncState \<times> event list" where
  "create_and_store create_response agentId sid conversationsMap state =
     (case createConversation create_response of
        Inl e \<Rightarrow> (Inl e, state, [PostConversation agentId])
      | Inr cid \<Rightarrow>
          (Inr cid, state\<lparr>conversationId := Some cid\<rparr>,
           [PostConversation agentId,
            SaveConversationsMap
              (assign_property conversationsMap sid
                 (Entry \<lparr>entry_conversationId = cid, entry_agentId = agentId\<rparr>))]))"

text \<open>
  \<open>getOrCreateConversation\<close>: the result or the error thrown, the state object after
  the call, and the effects. \<open>if (cached)\<close> is false for a missing entry and for the
  empty legacy string. (When the session id is no own key but names a member of
  \<open>Object.prototype\<close>, \<open>cached\<close> is that member: it has no \<open>agentId\<close>, so the
  upgrade branch runs, whose \<open>delete\<close> finds nothing; result and effects are those of
  the branch for a missing entry.)
\<close>

definition getOrCreateConversation ::
  "ConversationsMap option \<Rightarrow> Conversation response \<Rightarrow> js_string \<Rightarrow> js_string \<Rightarrow> SyncState \<Rightarrow>
   (error + js_string) \<times> SyncState \<times> event list" where
  "getOrCreateConversation conversations_file create_response agentId sid state =
     (if truthy (conversationId state) then
        (Inr (case conversationId state of Some existing \<Rightarrow> existing | None \<Rightarrow> []), state, [])
      else
        let conversationsMap = loadConversationsMap conversations_file in
        case conversationsMap sid of
          None \<Rightarrow> create_and_store create_response agentId sid conversationsMap state
        | Some (Legacy c) \<Rightarrow>
            if c = [] then create_and_store create_response agentId sid conversationsMap state
            else create_and_store create_response agentId sid (conversationsMap(sid := None)) state
        | Some (Entry entry) \<Rightarrow>
            if entry_agentId entry \<noteq> [] \<and> entry_agentId entry \<noteq> agentId then
              create_and_store create_response agentId sid (conversationsMap(sid := None)) state
            else if entry_agentId entry = [] then
              create_and_store create_response agentId sid (conversationsMap(sid := None)) state
            else
              (Inr (entry_conversationId entry),
               state\<lparr>conversationId := Some (entry_conversationId entry)\<rparr>, []))"

text \<open>
  \<open>lookupConversation\<close>: the lookup that never creates a conversation. (For a session
  id that is no own key but names a member of \<open>Object.prototype\<close> the result is that
  member's \<open>conversationId\<close>, which is \<open>undefined\<close>.)
\<close>

definition lookupConversation :: "ConversationsMap option \<Rightarrow> js_string \<Rightarrow> js_string option" where
  "lookupConversation conversations_file sid =
     (case conversations_file of
        None \<Rightarrow> None
      | Some conversationsMap \<Rightarrow>
          (case conversationsMap sid of
             None \<Rightarrow> None
           | Some (Legacy c) \<Rightarrow> if c = [] then None else Some c
           | Some (Entry entry) \<Rightarrow> Some (entry_conversationId entry)))"

section \<open>Sync orchestrator\<close>

text \<open>
  \<open>fetchAgent\<close> of \<^verbatim>\<open>conversation_utils.ts\<close> and of \<^verbatim>\<open>pretool_sync.ts\<close>, on the
  outcome of the GET request.
\<close>

definition fetchAgent :: "Agent response \<Rightarrow> error + Agent" where
  "fetchAgent response =
     (case response of
        Fetch_rejected \<Rightarrow> Inl FetchError
      | Http status body \<Rightarrow>
          if \<not> ok status then Inl (ApiError status)
          else (case body of None \<Rightarrow> Inl FetchError | Some agent \<Rightarrow> Inr agent))"

text \<open>
  \<open>countTranscriptLines\<close>, on the content of the transcript file (\<open>None\<close> when it
  does not exist).
\<close>

definition countTranscriptLines :: "js_string option \<Rightarrow> int" where
  "countTranscriptLines transcript_file =
     (case transcript_file of
        None \<Rightarrow> 0
      | Some file_content \<Rightarrow> int (length (filter (\<lambda>line. trim line \<noteq> []) (split 0x0A file_content))))"

text \<open>
  \<open>state.lastBlockValues = {}; for (const block of blocks)
  state.lastBlockValues[block.label] = block.value\<close>. A later block with the same
  label overwrites the earlier one.
\<close>

definition block_values_of :: "MemoryBlock list \<Rightarrow> block_values" where
  "block_values_of bs =
     foldl (\<lambda>obj block. assign_property obj (label block) (block_value block)) Map.empty bs"

text \<open>
  The formatters of the changed blocks (\<open>formatChangedBlocksForStdout\<close> in
  \<^verbatim>\<open>sync_letta_memory.ts\<close>, \<open>formatOutput\<close> in \<^verbatim>\<open>pretool_sync.ts\<close>) read
  \<open>lastBlockValues?.[block.label]\<close> and, unless it is \<open>undefined\<close>, call \<open>split\<close> on
  it. For a label that is no own key and names a member of \<open>Object.prototype\<close> the
  value has no \<open>split\<close> and the call throws a TypeError. Nothing else in the
  formatters throws; their text output is not modelled.
\<close>

definition rendering_throws :: "MemoryBlock list \<Rightarrow> block_values option \<Rightarrow> bool" where
  "rendering_throws changedBlocks lastValues =
     (case lastValues of
        None \<Rightarrow> False
      | Some previous \<Rightarrow>
          list_ex (\<lambda>block. previous (label block) = None \<and> inherited (label block))
            changedBlocks)"

text \<open>
  \<open>interface HookInput\<close>; the code tests every field before use, so all are optional
  here. \<open>hook_event_name\<close> and \<open>tool_name\<close> are only logged.
\<close>

record HookInput =
  session_id :: "js_string option"
  cwd :: "js_string option"
  prompt :: "js_string option"
  transcript_path :: "js_string option"

text \<open>
  What one invocation finds outside itself: the environment variables, the outcome of
  \<open>getAgentId\<close> (\<^verbatim>\<open>agent_config.ts\<close>), the hook input read from standard input, the
  content of the session record and of \<^verbatim>\<open>conversations.json\<close> under the working
  directory, the outcome of each remote request, and the transcript.
\<close>

record environment =
  env_apiKey :: "js_string option"
  env_projectDir :: js_string
  env_getAgentId :: "error + js_string"
  env_hookInput :: "HookInput option"
  env_session_file :: "SyncState option"
  env_conversations_file :: "ConversationsMap option"
  env_agent_response :: "Agent response"
  env_messages_response :: "LettaMessage list response"
  env_create_response :: "Conversation response"
  env_transcript_file :: "js_string option"

text \<open>
  The block "Send user prompt to Letta early" of \<open>main\<close> in
  \<^verbatim>\<open>sync_letta_memory.ts\<close>, with its guard \<open>sessionId && hookInput?.prompt && state\<close>:
  the state object after the block and its effects. An error thrown inside is caught
  there and reported on standard error.
\<close>

definition notify_early ::
  "environment \<Rightarrow> js_string \<Rightarrow> js_string option \<Rightarrow> SyncState option \<Rightarrow>
   SyncState option \<times> event list" where
  "notify_early env agentId sid state =
     (case (sid, env_hookInput env, state) of
        (Some s, Some hookInput, Some st) \<Rightarrow>
          (case prompt hookInput of
             Some user_prompt \<Rightarrow>
               if s \<noteq> [] \<and> user_prompt \<noteq> [] then
                 (case getOrCreateConversation (env_conversations_file env)
                         (env_create_response env) agentId s st of
                    (Inl e, st', events) \<Rightarrow> (Some st', events @ [Stderr])
                  | (Inr convId, st', events) \<Rightarrow>
                      (let transcriptLength =
                             (if truthy (transcript_path hookInput)
                              then countTranscriptLines (env_transcript_file env)
                              else 0)
                       in (Some st',
                           events @
                           [WritePayloadFile convId s user_prompt
                              (if transcriptLength > 0 then transcriptLength - 1 else 0),
                            SpawnWorker])))
               else (state, [])
           | None \<Rightarrow> (state, []))
      | _ \<Rightarrow> (state, []))"

text \<open>
  The steps of \<open>main\<close> in \<^verbatim>\<open>sync_letta_memory.ts\<close> before the two requests:
  \<open>hookInput?.session_id\<close>, \<open>hookInput?.cwd || projectDir\<close>, the state loaded when
  there is a session id, and the conversation id recovered from
  \<^verbatim>\<open>conversations.json\<close> when the state has none (the state then takes it).
\<close>

definition hook_session_id :: "environment \<Rightarrow> js_string option" where
  "hook_session_id env = (case env_hookInput env of None \<Rightarrow> None | Some h \<Rightarrow> session_id h)"

definition working_dir :: "environment \<Rightarrow> js_string" where
  "working_dir env =
     (case env_hookInput env of
        None \<Rightarrow> env_projectDir env
      | Some h \<Rightarrow>
          (case cwd h of
             Some c \<Rightarrow> if c \<noteq> [] then c else env_projectDir env
           | None \<Rightarrow> env_projectDir env))"

definition load_state :: "environment \<Rightarrow> SyncState option" where
  "load_state env =
     (case hook_session_id env of
        Some s \<Rightarrow> if s \<noteq> [] then Some (loadSyncState (env_session_file env) s) else None
      | None \<Rightarrow> None)"

definition recover_conversationId ::
  "environment \<Rightarrow> SyncState option \<Rightarrow> SyncState option \<times> js_string option" where
  "recover_conversationId env state =
     (let conversationId0 =
            or_null (case state of None \<Rightarrow> None | Some st \<Rightarrow> conversationId st)
      in case hook_session_id env of
           Some s \<Rightarrow>
             if \<not> truthy conversationId0 \<and> s \<noteq> [] then
               (let found = lookupConversation (env_conversations_file env) s
                in if truthy found
                   then (map_option (\<lambda>st. st\<lparr>conversationId := found\<rparr>) state, found)
                   else (state, found))
             else (state, conversationId0)
         | None \<Rightarrow> (state, conversationId0))"

text \<open>
  "Update state with block values and last seen message ID": the new block values
  replace the old ones, and the cursor is set when \<open>lastMessageId\<close> is truthy.
\<close>

definition update_state ::
  "SyncState option \<Rightarrow> MemoryBlock list \<Rightarrow> js_string option \<Rightarrow> SyncState option" where
  "update_state state agent_blocks last_id =
     map_option
       (\<lambda>st. let st' = st\<lparr>lastBlockValues := Some (block_values_of agent_blocks)\<rparr>
             in if truthy last_id then st'\<lparr>lastSeenMessageId := last_id\<rparr> else st')
       state"

text \<open>
  \<open>main\<close> of \<^verbatim>\<open>sync_letta_memory.ts\<close> (the UserPromptSubmit hook). Every error
  that reaches the outer \<open>catch\<close> is reported on standard error and ends the process
  with code 1; the formatter of the changed blocks runs after \<^verbatim>\<open>CLAUDE.md\<close> is
  written and before anything is printed.
\<close>

definition main_sync_letta_memory :: "environment \<Rightarrow> event list" where
  "main_sync_letta_memory env =
     (if \<not> truthy (env_apiKey env) then [Stderr, Exit 1]
      else case env_getAgentId env of
        Inl e \<Rightarrow> [Stderr, Exit 1]
      | Inr agentId \<Rightarrow>
          (let dir = working_dir env;
               sid = hook_session_id env;
               (state, conversationId1) = recover_conversationId env (load_state env);
               lastBlockValues0 =
                 (case state of None \<Rightarrow> None | Some st \<Rightarrow> lastBlockValues st);
               lastSeenMessageId0 =
                 or_null (case state of None \<Rightarrow> None | Some st \<Rightarrow> lastSeenMessageId st)
           in case fetchAgent (env_agent_response env) of
                Inl e \<Rightarrow> [Stderr, Exit 1]
              | Inr agent \<Rightarrow>
                  (case fetchAssistantMessages (env_messages_response env)
                          conversationId1 lastSeenMessageId0 of
                     Inl e \<Rightarrow> [Stderr, Exit 1]
                   | Inr messagesResult \<Rightarrow>
                       (let agent_blocks = (case blocks agent of Some bs \<Rightarrow> bs | None \<Rightarrow> []);
                            changedBlocks = detectChangedBlocks agent_blocks lastBlockValues0;
                            state2 = update_state state agent_blocks (lastMessageId messagesResult);
                            notified = notify_early env agentId sid state2
                        in if rendering_throws changedBlocks lastBlockValues0
                           then [UpdateClaudeMd dir agent conversationId1, Stderr, Exit 1]
                           else
                             [UpdateClaudeMd dir agent conversationId1,
                              Stdout \<lparr>from_agent = agent, new_messages = messages messagesResult,
                                      changed_blocks = changedBlocks,
                                      previous_values = lastBlockValues0\<rparr>]
                             @ snd notified
                             @ (case fst notified of
                                  Some st \<Rightarrow> [SaveSyncState dir st]
                                | None \<Rightarrow> [])))))"

text \<open>
  \<open>main\<close> of \<^verbatim>\<open>pretool_sync.ts\<close> (the PreToolUse hook). Every error is caught
  and ends the process with code 0; \<open>formatOutput\<close> runs before the state is saved.
\<close>

definition main_pretool_sync :: "environment \<Rightarrow> event list" where
  "main_pretool_sync env =
     (if \<not> truthy (env_apiKey env) then [Exit 0]
      else case env_hookInput env of
        None \<Rightarrow> [Exit 0]
      | Some hookInput \<Rightarrow>
          (case (session_id hookInput, cwd hookInput) of
             (Some sid, Some dir) \<Rightarrow>
               if sid = [] \<or> dir = [] then [Exit 0]
               else
                 (let state = loadSyncState (env_session_file env) sid in
                  if lastBlockValues state = None \<and> \<not> truthy (lastSeenMessageId state)
                  then [Exit 0]
                  else case env_getAgentId env of
                    Inl e \<Rightarrow> [Exit 0]
                  | Inr agentId \<Rightarrow>
                      (let conversationId0 = or_null (conversationId state);
                           conversationId1 =
                             (if \<not> truthy conversationId0
                              then lookupConversation (env_conversations_file env) sid
                              else conversationId0)
                       in case fetchAgent (env_agent_response env) of
                            Inl e \<Rightarrow> [Exit 0]
                          | Inr agent \<Rightarrow>
                              (case fetchNewMessages (env_messages_response env) conversationId1
                                      (or_null (lastSeenMessageId state)) of
                                 Inl e \<Rightarrow> [Exit 0]
                               | Inr messagesResult \<Rightarrow>
                                   (let newMessages = messages messagesResult;
                                        changedBlocks =
                                          detectChangedBlocks_pretool
                                            (case blocks agent of Some bs \<Rightarrow> bs | None \<Rightarrow> [])
                                            (lastBlockValues state)
                                    in if newMessages = [] \<and> changedBlocks = [] then [Exit 0]
                                       else if rendering_throws changedBlocks (lastBlockValues state)
                                       then [Exit 0]
                                       else
                                         (let state1 =
                                                (if truthy (lastMessageId messagesResult)
                                                 then state\<lparr>lastSeenMessageId := lastMessageId messagesResult\<rparr>
                                                 else state);
                                              state2 =
                                                (case blocks agent of
                                                   Some bs \<Rightarrow> state1\<lparr>lastBlockValues := Some (block_values_of bs)\<rparr>
                                                 | None \<Rightarrow> state1)
                                          in [SaveSyncState dir state2,
                                              Stdout \<lparr>from_agent = agent, new_messages = newMessages,
                                                      changed_blocks = changedBlocks,
                                                      previous_values = lastBlockValues state\<rparr>])))))
           | _ \<Rightarrow> [Exit 0]))"

section \<open>Example inputs\<close>

text \<open>
  An assistant message with a given id and content, and the feed
  \<open>[m5, m4, m3, m2, m1]\<close>, newest first.
\<close>

definition assistant_message :: "string \<Rightarrow> string \<Rightarrow> LettaMessage" where
  "assistant_message i t =
     \<lparr>msg_id = js i, message_type = js ''assistant_message'', content = Some (js t),
      msg_text = None, msg_date = None\<rparr>"

definition example_feed :: "LettaMessage list" where
  "example_feed =
     [assistant_message ''m5'' ''five'', assistant_message ''m4'' ''four'',
      assistant_message ''m3'' ''three'', assistant_message ''m2'' ''two'',
      assistant_message ''m1'' ''one'']"

text \<open>A memory block labelled \<open>persona\<close> with a given value.\<close>

definition persona_block :: "string \<Rightarrow> MemoryBlock" where
  "persona_block v = \<lparr>label = js ''persona'', description = js ''who the user is'', block_value = js v\<rparr>"

text \<open>
  The record of session \<open>s1\<close> with a given \<open>conversationId\<close>, the response to a
  successful creation of a conversation, and a binding table that binds \<open>s1\<close>.
\<close>

definition session_state :: "js_string option \<Rightarrow> SyncState" where
  "session_state c =
     \<lparr>lastProcessedIndex = 0, sessionId = js ''s1'', conversationId = c,
      lastBlockValues = Some [js ''persona'' \<mapsto> js ''likes cats''],
      lastSeenMessageId = Some (js ''m3'')\<rparr>"

definition created :: "string \<Rightarrow> string \<Rightarrow> Conversation response" where
  "created c a = Http 200 (Some \<lparr>conv_id = js c, conv_agent_id = js a, created_at = None\<rparr>)"

definition bound_to :: "string \<Rightarrow> string \<Rightarrow> ConversationsMap" where
  "bound_to c a = [js ''s1'' \<mapsto> Entry \<lparr>entry_conversationId = js c, entry_agentId = js a\<rparr>]"

text \<open>
  An agent whose \<open>persona\<close> block has gained a line, and a run of session \<open>s1\<close> in
  \<^verbatim>\<open>/project\<close>: the record on disk has the conversation, the old block value and
  the cursor \<open>m3\<close>; the response to the message request is the argument.
\<close>

definition example_agent :: Agent where
  "example_agent =
     \<lparr>agent_id = js ''agent-A'', agent_name = js ''Sub'', agent_description = None,
      blocks = Some [persona_block (''likes cats'' @ [CHR 0x0A] @ ''likes dogs'')]\<rparr>"

definition example_environment :: "LettaMessage list response \<Rightarrow> environment" where
  "example_environment feed_response =
     \<lparr>env_apiKey = Some (js ''key''),
      env_projectDir = js ''/project'',
      env_getAgentId = Inr (js ''agent-A''),
      env_hookInput =
        Some \<lparr>session_id = Some (js ''s1''), cwd = Some (js ''/project''), prompt = None,
              transcript_path = None\<rparr>,
      env_session_file = Some (session_state (Some (js ''conv-1''))),
      env_conversations_file = None,
      env_agent_response = Http 200 (Some example_agent),
      env_messages_response = feed_response,
      env_create_response = Fetch_rejected,
      env_transcript_file = None\<rparr>"

section \<open>Facts about the JavaScript primitives and the loop\<close>

lemma js_simps: "js [] = []" "js (c # cs) = of_nat (of_char c) # js cs"
  by (simp_all add: js_def)

lemma findIndex_from_none:
  "0 \<le> i \<Longrightarrow> (findIndex_from P xs i = -1) = (\<forall>x\<in>set xs. \<not> P x)"
proof (induction xs arbitrary: i)
  case Nil
  then show ?case by simp
next
  case (Cons x xs)
  then show ?case by auto
qed

lemma findIndex_from_some:
  "\<exists>x\<in>set xs. P x \<Longrightarrow> findIndex_from P xs i = i + int (length (takeWhile (\<lambda>x. \<not> P x) xs))"
proof (induction xs arbitrary: i)
  case Nil
  then show ?case by simp
next
  case (Cons x xs)
  show ?case
  proof (cases "P x")
    case True
    then show ?thesis by simp
  next
    case False
    with Cons.prems have "\<exists>x\<in>set xs. P x" by auto
    from Cons.IH [OF this, of "i + 1"] False show ?thesis by simp
  qed
qed

lemma loop_eq:
  "0 \<le> i \<Longrightarrow> i \<le> e \<Longrightarrow> e \<le> int (length ams) \<Longrightarrow>
   new_messages_loop ams e i acc =
     Inr (acc @ map message_info (filter has_text (drop (nat i) (take (nat e) ams))))"
proof (induction ams e i acc rule: new_messages_loop.induct)
  case (1 ams e i acc)
  show ?case
  proof (cases "i < e")
    case True
    with 1 have in_range: "0 \<le> i \<and> i < int (length ams)" by simp
    have step: "drop (nat i) (take (nat e) ams) = ams ! nat i # drop (nat (i + 1)) (take (nat e) ams)"
    proof -
      have lt: "nat i < length (take (nat e) ams)"
        using True in_range "1.prems" by simp
      have "nat (i + 1) = Suc (nat i)"
        using in_range by arith
      moreover have "take (nat e) ams ! nat i = ams ! nat i"
        using True in_range by simp
      ultimately show ?thesis
        using Cons_nth_drop_Suc [OF lt] by simp
    qed
    have "new_messages_loop ams e i acc =
          new_messages_loop ams e (i + 1) (push_message (ams ! nat i) acc)"
      using True in_range by (subst new_messages_loop.simps) simp
    also have "\<dots> = Inr (push_message (ams ! nat i) acc @
                map message_info (filter has_text (drop (nat (i + 1)) (take (nat e) ams))))"
      using 1 True in_range by simp
    finally show ?thesis
      by (simp add: step push_message_def)
  next
    case False
    with 1 have "i = e" by simp
    then show ?thesis
      by (subst new_messages_loop.simps) simp
  qed
qed

lemma new_since_eq:
  "new_since allMessages cursor =
     Inr \<lparr>messages =
            map message_info
              (filter has_text
                 (takeWhile (\<lambda>msg. \<not> (truthy cursor \<and> Some (msg_id msg) = cursor))
                    (filter is_assistant allMessages))),
          lastMessageId =
            (case filter is_assistant allMessages of
               [] \<Rightarrow> cursor
             | newest # older \<Rightarrow> Some (msg_id newest))\<rparr>"
proof -
  define ams where "ams = filter is_assistant allMessages"
  define P :: "LettaMessage \<Rightarrow> bool" where "P = (\<lambda>msg. Some (msg_id msg) = cursor)"
  have last_id: "(if length ams > 0 then Some (msg_id (ams ! 0)) else cursor) =
                 (case ams of [] \<Rightarrow> cursor | newest # older \<Rightarrow> Some (msg_id newest))"
    by (cases ams) simp_all
  have whole: "new_messages_loop ams (int (length ams)) 0 [] =
               Inr (map message_info (filter has_text ams))"
    using loop_eq [of 0 "int (length ams)" ams "[]"] by simp
  show ?thesis
  proof (cases "truthy cursor \<and> (\<exists>x\<in>set ams. P x)")
    case True
    then have idx: "findIndex P ams = int (length (takeWhile (\<lambda>x. \<not> P x) ams))"
      using findIndex_from_some [of ams P 0] by (simp add: findIndex_def)
    have le: "length (takeWhile (\<lambda>x. \<not> P x) ams) \<le> length ams"
      by (rule length_takeWhile_le)
    have run: "new_messages_loop ams (findIndex P ams) 0 [] =
          Inr (map message_info (filter has_text (takeWhile (\<lambda>x. \<not> P x) ams)))"
      using loop_eq [of 0 "findIndex P ams" ams "[]"] le
      by (simp add: idx flip: takeWhile_eq_take)
    have found: "findIndex P ams \<noteq> -1"
      by (simp add: idx)
    have same: "takeWhile (\<lambda>msg. \<not> (truthy cursor \<and> Some (msg_id msg) = cursor)) ams =
                takeWhile (\<lambda>x. \<not> P x) ams"
      using True by (simp add: P_def)
    have "new_since allMessages cursor =
            Inr \<lparr>messages = map message_info (filter has_text (takeWhile (\<lambda>x. \<not> P x) ams)),
                 lastMessageId = (case ams of [] \<Rightarrow> cursor | newest # older \<Rightarrow> Some (msg_id newest))\<rparr>"
      using True run found last_id
      by (simp add: new_since_def Let_def flip: ams_def P_def)
    then show ?thesis
      unfolding ams_def [symmetric] same .
  next
    case False
    then have same: "takeWhile (\<lambda>msg. \<not> (truthy cursor \<and> Some (msg_id msg) = cursor)) ams = ams"
      by (auto simp: P_def)
    have missed: "truthy cursor \<Longrightarrow> findIndex P ams = -1"
      using False findIndex_from_none [of 0 P ams] by (simp add: findIndex_def)
    have "new_since allMessages cursor =
            Inr \<lparr>messages = map message_info (filter has_text ams),
                 lastMessageId = (case ams of [] \<Rightarrow> cursor | newest # older \<Rightarrow> Some (msg_id newest))\<rparr>"
      using whole last_id missed
      by (simp add: new_since_def Let_def flip: ams_def P_def)
    then show ?thesis
      unfolding ams_def [symmetric] same .
  qed
qed

lemma fetch_ok_eq:
  assumes "truthy conv" and "ok status"
  shows "fetchAssistantMessages (Http status (Some feed)) conv cursor = new_since feed cursor"
    and "fetchNewMessages (Http status (Some feed)) conv cursor = new_since feed cursor"
  using assms by (simp_all add: fetchAssistantMessages_def fetchNewMessages_def)

lemma info_id_message_info: "map info_id (map message_info ms) = map msg_id ms"
  by (simp add: message_info_def)

lemma ids_subseq:
  "subseq (map msg_id (filter has_text (takeWhile Q (filter is_assistant feed)))) (map msg_id feed)"
proof -
  have "subseq (takeWhile Q (filter is_assistant feed)) (filter is_assistant feed)"
    by (metis prefix_imp_subseq takeWhile_is_prefix)
  then have "subseq (filter has_text (takeWhile Q (filter is_assistant feed))) feed"
    by (meson subseq_filter_left subseq_order.order_trans)
  then show ?thesis
    by (rule subseq_map)
qed


section \<open>Message cursor tracker: order of the new messages\<close>

text \<open>
  C1. The new messages are not reversed: both trackers return them in feed order,
  newest first. On the feed \<open>[m5, m4, m3, m2, m1]\<close> with cursor \<open>m3\<close> the result is
  \<open>[m5, m4]\<close>, not \<open>[m4, m5]\<close>.
\<close>

theorem new_messages_newest_first_counterexample:
  "fetchAssistantMessages (Http 200 (Some example_feed)) (Some (js ''conv-1'')) (Some (js ''m3'')) =
     Inr \<lparr>messages =
            [\<lparr>info_id = js ''m5'', info_text = js ''five'', info_date = None\<rparr>,
             \<lparr>info_id = js ''m4'', info_text = js ''four'', info_date = None\<rparr>],
          lastMessageId = Some (js ''m5'')\<rparr>
   \<and> fetchNewMessages (Http 200 (Some example_feed)) (Some (js ''conv-1'')) (Some (js ''m3'')) =
     Inr \<lparr>messages =
            [\<lparr>info_id = js ''m5'', info_text = js ''five'', info_date = None\<rparr>,
             \<lparr>info_id = js ''m4'', info_text = js ''four'', info_date = None\<rparr>],
          lastMessageId = Some (js ''m5'')\<rparr>
   \<and> fetchAssistantMessages (Http 200 (Some example_feed)) (Some (js ''conv-1'')) (Some (js ''m3'')) \<noteq>
     Inr \<lparr>messages =
            [\<lparr>info_id = js ''m4'', info_text = js ''four'', info_date = None\<rparr>,
             \<lparr>info_id = js ''m5'', info_text = js ''five'', info_date = None\<rparr>],
          lastMessageId = Some (js ''m5'')\<rparr>"
  by (simp add: fetchAssistantMessages_def fetchNewMessages_def new_since_eq example_feed_def
        assistant_message_def is_assistant_def has_text_def message_info_def truthy_def ok_def
        or_else_def or_null_def js_simps)

text \<open>
  C1, as the code has it. When the conversation is known and the response is ok, the
  new messages are the text-bearing assistant messages that stand before the first
  occurrence of the cursor (all of them when the cursor is absent, empty or not found),
  in the order of the feed; their ids are a subsequence of the feed's ids. Both
  trackers agree.
\<close>

theorem new_messages_newest_first:
  assumes "truthy conv" and "ok status"
  shows "fetchAssistantMessages (Http status (Some feed)) conv cursor =
           Inr \<lparr>messages =
                  map message_info
                    (filter has_text
                       (takeWhile (\<lambda>msg. \<not> (truthy cursor \<and> Some (msg_id msg) = cursor))
                          (filter is_assistant feed))),
                lastMessageId =
                  (case filter is_assistant feed of
                     [] \<Rightarrow> cursor
                   | newest # older \<Rightarrow> Some (msg_id newest))\<rparr>
       \<and> fetchNewMessages (Http status (Some feed)) conv cursor =
           fetchAssistantMessages (Http status (Some feed)) conv cursor
       \<and> subseq
             (map info_id
                (map message_info
                   (filter has_text
                      (takeWhile (\<lambda>msg. \<not> (truthy cursor \<and> Some (msg_id msg) = cursor))
                         (filter is_assistant feed)))))
             (map msg_id feed)"
  using assms
  by (simp only: fetch_ok_eq new_since_eq info_id_message_info ids_subseq simp_thms)

theorem new_messages_newest_first_witness:
  "truthy (Some (js ''conv-1'')) \<and> ok 200
   \<and> fetchNewMessages (Http 200 (Some example_feed)) (Some (js ''conv-1'')) (Some (js ''m3'')) =
       fetchAssistantMessages (Http 200 (Some example_feed)) (Some (js ''conv-1'')) (Some (js ''m3''))
   \<and> subseq
         (map info_id
            (map message_info
               (filter has_text
                  (takeWhile (\<lambda>msg. \<not> (truthy (Some (js ''m3'')) \<and> Some (msg_id msg) = Some (js ''m3'')))
                     (filter is_assistant example_feed)))))
         (map msg_id example_feed)"
proof -
  have h1: "truthy (Some (js ''conv-1''))"
    by (simp add: truthy_def js_simps)
  have h2: "ok 200"
    by (simp add: ok_def)
  from new_messages_newest_first [OF h1 h2, of example_feed "Some (js ''m3'')"] h1 h2
  show ?thesis by blast
qed

section \<open>Message cursor tracker: the returned cursor\<close>

text \<open>
  C3. Re-running on the same feed with the returned cursor does not always give zero new
  messages: when the newest assistant message has the empty string as id, the returned
  cursor is the empty string, \<open>if (lastSeenMessageId)\<close> takes it for no cursor, and the
  second run returns the message again.
\<close>

theorem cursor_idempotence_counterexample:
  "fetchAssistantMessages (Http 200 (Some [assistant_message '''' ''hi''])) (Some (js ''conv-1'')) None =
     Inr \<lparr>messages = [\<lparr>info_id = [], info_text = js ''hi'', info_date = None\<rparr>],
          lastMessageId = Some []\<rparr>
   \<and> fetchAssistantMessages (Http 200 (Some [assistant_message '''' ''hi''])) (Some (js ''conv-1'')) (Some []) =
     Inr \<lparr>messages = [\<lparr>info_id = [], info_text = js ''hi'', info_date = None\<rparr>],
          lastMessageId = Some []\<rparr>"
  by (simp add: fetchAssistantMessages_def new_since_eq
        assistant_message_def is_assistant_def has_text_def message_info_def truthy_def ok_def
        or_else_def or_null_def js_simps)

text \<open>
  C3, as the code has it. When the conversation is known and the response is ok, both
  trackers return: the cursor is the id of the first assistant message of the feed; when
  the feed has no assistant message the previous cursor comes back with no new message;
  and unless the returned cursor is the empty string, running again on the same feed with
  the returned cursor gives no new message and the same cursor.
\<close>

theorem cursor_is_newest_visible_id:
  assumes "truthy conv" and "ok status"
  shows "\<exists>r. fetchAssistantMessages (Http status (Some feed)) conv cursor = Inr r
           \<and> fetchNewMessages (Http status (Some feed)) conv cursor = Inr r
           \<and> (case filter is_assistant feed of
                 [] \<Rightarrow> r = \<lparr>messages = [], lastMessageId = cursor\<rparr>
               | newest # older \<Rightarrow> lastMessageId r = Some (msg_id newest))
           \<and> (lastMessageId r \<noteq> Some [] \<longrightarrow>
                fetchAssistantMessages (Http status (Some feed)) conv (lastMessageId r) =
                  Inr \<lparr>messages = [], lastMessageId = lastMessageId r\<rparr>
                \<and> fetchNewMessages (Http status (Some feed)) conv (lastMessageId r) =
                  Inr \<lparr>messages = [], lastMessageId = lastMessageId r\<rparr>)"
proof (cases "filter is_assistant feed")
  case Nil
  then show ?thesis
    using assms by (simp add: fetch_ok_eq new_since_eq)
next
  case (Cons newest older)
  have "msg_id newest \<noteq> [] \<Longrightarrow> truthy (Some (msg_id newest))"
    by (simp add: truthy_def)
  with Cons show ?thesis
    using assms by (simp add: fetch_ok_eq new_since_eq)
qed

theorem cursor_is_newest_visible_id_witness:
  "truthy (Some (js ''conv-1'')) \<and> ok 200
   \<and> (\<exists>r. fetchAssistantMessages (Http 200 (Some example_feed)) (Some (js ''conv-1'')) (Some (js ''m3'')) = Inr r
          \<and> lastMessageId r = Some (js ''m5'')
          \<and> lastMessageId r \<noteq> Some []
          \<and> fetchAssistantMessages (Http 200 (Some example_feed)) (Some (js ''conv-1'')) (lastMessageId r) =
               Inr \<lparr>messages = [], lastMessageId = lastMessageId r\<rparr>)"
proof -
  have h1: "truthy (Some (js ''conv-1''))"
    by (simp add: truthy_def js_simps)
  have h2: "ok 200"
    by (simp add: ok_def)
  have vis: "filter is_assistant example_feed = example_feed"
    by (simp add: example_feed_def assistant_message_def is_assistant_def)
  from cursor_is_newest_visible_id [OF h1 h2, of example_feed "Some (js ''m3'')"]
  obtain r where
    r: "fetchAssistantMessages (Http 200 (Some example_feed)) (Some (js ''conv-1'')) (Some (js ''m3'')) = Inr r"
    and newest: "(case filter is_assistant example_feed of
                 [] \<Rightarrow> r = \<lparr>messages = [], lastMessageId = Some (js ''m3'')\<rparr>
               | newest # older \<Rightarrow> lastMessageId r = Some (msg_id newest))"
    and again: "lastMessageId r \<noteq> Some [] \<longrightarrow>
                fetchAssistantMessages (Http 200 (Some example_feed)) (Some (js ''conv-1'')) (lastMessageId r) =
                  Inr \<lparr>messages = [], lastMessageId = lastMessageId r\<rparr>
                \<and> fetchNewMessages (Http 200 (Some example_feed)) (Some (js ''conv-1'')) (lastMessageId r) =
                  Inr \<lparr>messages = [], lastMessageId = lastMessageId r\<rparr>"
    by blast
  from newest have id5: "lastMessageId r = Some (js ''m5'')"
    by (simp add: vis) (simp add: example_feed_def assistant_message_def)
  then have "lastMessageId r \<noteq> Some []"
    by (simp add: js_simps)
  with again r id5 h1 h2 show ?thesis by blast
qed

section \<open>Message cursor tracker: a cursor that is not in the window\<close>

text \<open>
  C6. A cursor that is not among the assistant messages does not always bring back the
  whole window of assistant messages: an assistant message without text is left out,
  here the only one, so the result is empty.
\<close>

theorem cursor_miss_counterexample:
  "filter is_assistant [assistant_message ''m1'' ''''] = [assistant_message ''m1'' '''']
   \<and> js ''m0'' \<notin> set (map msg_id (filter is_assistant [assistant_message ''m1'' '''']))
   \<and> fetchAssistantMessages (Http 200 (Some [assistant_message ''m1'' ''''])) (Some (js ''conv-1'')) (Some (js ''m0'')) =
       Inr \<lparr>messages = [], lastMessageId = Some (js ''m1'')\<rparr>
   \<and> fetchNewMessages (Http 200 (Some [assistant_message ''m1'' ''''])) (Some (js ''conv-1'')) (Some (js ''m0'')) =
       Inr \<lparr>messages = [], lastMessageId = Some (js ''m1'')\<rparr>"
  by (simp add: fetchAssistantMessages_def fetchNewMessages_def new_since_eq
        assistant_message_def is_assistant_def has_text_def message_info_def truthy_def ok_def
        or_else_def or_null_def js_simps)

text \<open>
  C6, as the code has it. When the conversation is known and the response is ok, a
  cursor id that is not among the assistant messages of the feed gives every assistant
  message that carries text, in feed order, and never an error; when all assistant
  messages carry text these are the ids of the whole window. Both trackers agree.
\<close>

theorem cursor_miss_returns_text_window:
  assumes "truthy conv" and "ok status"
    and "c \<notin> set (map msg_id (filter is_assistant feed))"
  shows "fetchAssistantMessages (Http status (Some feed)) conv (Some c) =
           Inr \<lparr>messages = map message_info (filter has_text (filter is_assistant feed)),
                lastMessageId =
                  (case filter is_assistant feed of
                     [] \<Rightarrow> Some c
                   | newest # older \<Rightarrow> Some (msg_id newest))\<rparr>
       \<and> fetchNewMessages (Http status (Some feed)) conv (Some c) =
           fetchAssistantMessages (Http status (Some feed)) conv (Some c)
       \<and> ((\<forall>msg\<in>set (filter is_assistant feed). has_text msg) \<longrightarrow>
            map info_id (map message_info (filter has_text (filter is_assistant feed))) =
            map msg_id (filter is_assistant feed))"
proof -
  have all: "takeWhile (\<lambda>msg. \<not> (truthy (Some c) \<and> Some (msg_id msg) = Some c)) (filter is_assistant feed) =
        filter is_assistant feed"
    using assms(3) by auto
  have run: "fetchAssistantMessages (Http status (Some feed)) conv (Some c) =
           Inr \<lparr>messages = map message_info (filter has_text (filter is_assistant feed)),
                lastMessageId =
                  (case filter is_assistant feed of
                     [] \<Rightarrow> Some c
                   | newest # older \<Rightarrow> Some (msg_id newest))\<rparr>"
    using assms(1,2) by (simp only: fetch_ok_eq new_since_eq all)
  have same: "fetchNewMessages (Http status (Some feed)) conv (Some c) =
           fetchAssistantMessages (Http status (Some feed)) conv (Some c)"
    using assms(1,2) by (simp only: fetch_ok_eq)
  have whole: "(\<forall>msg\<in>set (filter is_assistant feed). has_text msg) \<longrightarrow>
            map info_id (map message_info (filter has_text (filter is_assistant feed))) =
            map msg_id (filter is_assistant feed)"
    by (simp only: info_id_message_info) (metis filter_True)
  from run same whole show ?thesis by blast
qed

theorem cursor_miss_returns_text_window_witness:
  "truthy (Some (js ''conv-1'')) \<and> ok 200
   \<and> js ''m9'' \<notin> set (map msg_id (filter is_assistant example_feed))
   \<and> list_all has_text (filter is_assistant example_feed)
   \<and> fetchAssistantMessages (Http 200 (Some example_feed)) (Some (js ''conv-1'')) (Some (js ''m9'')) =
           Inr \<lparr>messages = map message_info (filter has_text (filter is_assistant example_feed)),
                lastMessageId =
                  (case filter is_assistant example_feed of
                     [] \<Rightarrow> Some (js ''m9'')
                   | newest # older \<Rightarrow> Some (msg_id newest))\<rparr>
   \<and> map info_id (map message_info (filter has_text (filter is_assistant example_feed))) =
            map msg_id (filter is_assistant example_feed)"
proof -
  have h1: "truthy (Some (js ''conv-1''))"
    by (simp add: truthy_def js_simps)
  have h2: "ok 200"
    by (simp add: ok_def)
  have h3: "js ''m9'' \<notin> set (map msg_id (filter is_assistant example_feed))"
    by (simp add: example_feed_def assistant_message_def is_assistant_def js_simps)
  have h4: "list_all has_text (filter is_assistant example_feed)"
    by (simp add: example_feed_def assistant_message_def is_assistant_def has_text_def
          or_else_def truthy_def js_simps)
  then have h4': "\<forall>msg\<in>set (filter is_assistant example_feed). has_text msg"
    by (simp only: list_all_iff)
  from cursor_miss_returns_text_window [OF h1 h2 h3] h1 h2 h3 h4 h4'
  show ?thesis by blast
qed

section \<open>Memory diff engine: line diff\<close>

text \<open>
  What \<open>split\<close> and \<open>trim\<close> compute: the pieces contain no separator and, joined
  by it, give the string back; \<open>trim\<close> removes a whitespace prefix and a whitespace
  suffix and leaves no whitespace at either end.
\<close>

lemma split_no_separator: "\<forall>piece\<in>set (split sep s). sep \<notin> set piece"
  by (induction s) (auto split: list.splits)

lemma split_not_empty: "split sep s \<noteq> []"
  by (induction s) (auto split: list.splits)

lemma split_joins: "concat (map (\<lambda>piece. piece @ [sep]) (split sep s)) = s @ [sep]"
  by (induction s) (auto split: list.splits)

lemma trim_parts:
  "\<exists>before after. s = before @ trim s @ after \<and> list_all is_whitespace before \<and> list_all is_whitespace after"
proof -
  let ?t = "dropWhile is_whitespace s"
  have 1: "s = takeWhile is_whitespace s @ ?t" by simp
  have 2: "?t = trim s @ rev (takeWhile is_whitespace (rev ?t))"
  proof -
    have "?t = rev (takeWhile is_whitespace (rev ?t) @ dropWhile is_whitespace (rev ?t))"
      by (simp only: takeWhile_dropWhile_id rev_rev_ident)
    then show ?thesis by (simp only: rev_append trim_def)
  qed
  have 3: "list_all is_whitespace (takeWhile is_whitespace s)"
    by (simp add: list_all_iff) (meson set_takeWhileD)
  have 4: "list_all is_whitespace (rev (takeWhile is_whitespace (rev ?t)))"
    by (simp add: list_all_iff) (meson set_takeWhileD)
  from 1 2 3 4 show ?thesis by metis
qed

lemma trim_ends:
  "trim s \<noteq> [] \<Longrightarrow> \<not> is_whitespace (hd (trim s)) \<and> \<not> is_whitespace (last (trim s))"
proof -
  assume ne: "trim s \<noteq> []"
  let ?t = "dropWhile is_whitespace s"
  let ?u = "dropWhile is_whitespace (rev ?t)"
  have u: "?u \<noteq> []" using ne by (simp add: trim_def)
  then have "\<not> is_whitespace (hd ?u)" by (rule hd_dropWhile)
  then have last_ok: "\<not> is_whitespace (last (trim s))"
    using u by (simp add: trim_def last_rev)
  have t: "?t \<noteq> []"
  proof
    assume "?t = []"
    then have "?u = []" by (simp only: rev.simps dropWhile.simps)
    with u show False by (rule notE)
  qed
  then have hd_t: "\<not> is_whitespace (hd ?t)" by (rule hd_dropWhile)
  have "hd (trim s) = hd ?t"
  proof -
    have "last ?u = last (rev ?t)"
      using u by (metis last_appendR takeWhile_dropWhile_id)
    then show ?thesis using u t by (simp add: trim_def hd_rev last_rev)
  qed
  with hd_t last_ok show ?thesis by simp
qed

text \<open>
  C7. \<open>computeDiff\<close> splits both values at line feeds, trims every line and drops the
  empty ones; the lines it returns as added are, as a set, the lines of the new value
  that are no line of the old value, and the lines it returns as removed are the lines
  of the old value that are no line of the new value. The old value "likes cats" and
  the new value "likes cats", a line feed, "likes dogs" give added ["likes dogs"] and removed [].
\<close>

theorem computeDiff_line_sets:
  "set (added (computeDiff oldValue newValue)) =
     set (trimmed_lines newValue) - set (trimmed_lines oldValue)
   \<and> set (removed (computeDiff oldValue newValue)) =
     set (trimmed_lines oldValue) - set (trimmed_lines newValue)
   \<and> trimmed_lines newValue = filter (\<lambda>l. l \<noteq> []) (map trim (split 0x0A newValue))
   \<and> computeDiff (js ''likes cats'') (js (''likes cats'' @ [CHR 0x0A] @ ''likes dogs'')) =
       \<lparr>added = [js ''likes dogs''], removed = []\<rparr>"
proof -
  have "computeDiff (js ''likes cats'') (js (''likes cats'' @ [CHR 0x0A] @ ''likes dogs'')) =
       \<lparr>added = [js ''likes dogs''], removed = []\<rparr>"
    by (simp add: computeDiff_def trimmed_lines_def trim_def is_whitespace_def js_simps)
  then show ?thesis
    by (auto simp: computeDiff_def Let_def trimmed_lines_def)
qed

section \<open>Memory diff engine: changed blocks\<close>

text \<open>
  C8. Without previous block values (first sync) \<open>detectChangedBlocks\<close> of either
  script returns no changed block, whatever the current snapshot is.
\<close>

theorem first_sync_silence:
  "detectChangedBlocks currentBlocks None = []
   \<and> detectChangedBlocks_pretool currentBlocks None = []
   \<and> detectChangedBlocks [persona_block ''likes cats''] None = []"
  by (simp add: detectChangedBlocks_def detectChangedBlocks_pretool_def)

text \<open>
  C10. A label of the previous mapping that no current block carries is the label of no
  changed block: \<open>detectChangedBlocks\<close> of either script filters the current blocks, so
  a block that was deleted as a whole is not reported.
\<close>

theorem deleted_blocks_not_reported:
  assumes "previous l = Some v" and "l \<notin> set (map label currentBlocks)"
  shows "l \<notin> set (map label (detectChangedBlocks currentBlocks (Some previous)))
       \<and> l \<notin> set (map label (detectChangedBlocks_pretool currentBlocks (Some previous)))
       \<and> set (detectChangedBlocks currentBlocks (Some previous)) \<subseteq> set currentBlocks
       \<and> set (detectChangedBlocks_pretool currentBlocks (Some previous)) \<subseteq> set currentBlocks"
  using assms by (auto simp: detectChangedBlocks_def detectChangedBlocks_pretool_def)

theorem deleted_blocks_not_reported_witness:
  "[js ''persona'' \<mapsto> js ''likes cats'', js ''project'' \<mapsto> js ''parser''] (js ''project'') = Some (js ''parser'')
   \<and> js ''project'' \<notin> set (map label [persona_block ''likes dogs''])
   \<and> js ''project'' \<notin> set (map label (detectChangedBlocks [persona_block ''likes dogs'']
          (Some [js ''persona'' \<mapsto> js ''likes cats'', js ''project'' \<mapsto> js ''parser''])))
   \<and> js ''project'' \<notin> set (map label (detectChangedBlocks_pretool [persona_block ''likes dogs'']
          (Some [js ''persona'' \<mapsto> js ''likes cats'', js ''project'' \<mapsto> js ''parser''])))
   \<and> detectChangedBlocks [persona_block ''likes dogs'']
          (Some [js ''persona'' \<mapsto> js ''likes cats'', js ''project'' \<mapsto> js ''parser'']) =
        [persona_block ''likes dogs'']"
proof -
  have h1: "[js ''persona'' \<mapsto> js ''likes cats'', js ''project'' \<mapsto> js ''parser''] (js ''project'') = Some (js ''parser'')"
    by simp
  have h2: "js ''project'' \<notin> set (map label [persona_block ''likes dogs''])"
    by (simp add: persona_block_def js_simps)
  have run: "detectChangedBlocks [persona_block ''likes dogs'']
          (Some [js ''persona'' \<mapsto> js ''likes cats'', js ''project'' \<mapsto> js ''parser'']) =
        [persona_block ''likes dogs'']"
    by (simp add: detectChangedBlocks_def persona_block_def js_simps)
  from deleted_blocks_not_reported
         [of "[js ''persona'' \<mapsto> js ''likes cats'', js ''project'' \<mapsto> js ''parser'']"
             "js ''project''" "js ''parser''" "[persona_block ''likes dogs'']"]
       h1 h2 run
  show ?thesis by blast
qed

section \<open>Conversation resolver\<close>

text \<open>
  C4. A stale entry is not always replaced: when the session record already carries a
  \<open>conversationId\<close>, \<open>getOrCreateConversation\<close> returns it before the binding table
  is read. Here the table binds the session to agent A, the current agent is B, and the
  old conversation comes back with no creation and no write.
\<close>

theorem agent_switch_counterexample:
  "getOrCreateConversation (Some (bound_to ''conv-1'' ''agent-A'')) (created ''conv-2'' ''agent-B'')
     (js ''agent-B'') (js ''s1'') (session_state (Some (js ''conv-1''))) =
   (Inr (js ''conv-1''), session_state (Some (js ''conv-1'')), [])"
  by (simp add: getOrCreateConversation_def session_state_def truthy_def js_simps)

text \<open>
  C4, as the code has it. When the session record carries no \<open>conversationId\<close>, the
  binding table has an entry for the session that is a bare string or records another
  agent than the current one, and the creation request succeeds, then
  \<open>getOrCreateConversation\<close> posts the creation for the current agent, saves the table
  with the session bound to the new pair, sets the record's \<open>conversationId\<close> and
  returns the new id. For the session id \<open>__proto__\<close> the saved table has no entry
  for the session instead: the stale entry is deleted and the assignment that follows
  sets the prototype of the table (an empty legacy string is not deleted, and is
  overwritten).
\<close>

theorem stale_binding_recreated:
  assumes "\<not> truthy (conversationId state)"
    and "table sid = Some cached"
    and "cached = Legacy c \<or> (cached = Entry entry \<and> entry_agentId entry \<noteq> agentId)"
    and "ok status"
  shows "getOrCreateConversation (Some table) (Http status (Some conversation)) agentId sid state =
           (Inr (conv_id conversation),
            state\<lparr>conversationId := Some (conv_id conversation)\<rparr>,
            [PostConversation agentId,
             SaveConversationsMap
               (if sid = js ''__proto__'' \<and> cached \<noteq> Legacy [] then table(sid := None)
                else table(sid \<mapsto> Entry \<lparr>entry_conversationId = conv_id conversation,
                                        entry_agentId = agentId\<rparr>))])"
proof -
  have created: "createConversation (Http status (Some conversation)) = Inr (conv_id conversation)"
    using assms(4) by (simp add: createConversation_def)
  show ?thesis
  proof (cases "cached = Legacy []")
    case True
    with assms(1,2) show ?thesis
      by (simp add: getOrCreateConversation_def loadConversationsMap_def create_and_store_def
            created assign_property_def)
  next
    case False
    with assms(1,2,3) show ?thesis
      by (auto simp: getOrCreateConversation_def loadConversationsMap_def create_and_store_def
            created assign_property_def)
  qed
qed

theorem stale_binding_recreated_witness:
  "\<not> truthy (conversationId (session_state None))
   \<and> bound_to ''conv-1'' ''agent-A'' (js ''s1'') =
       Some (Entry \<lparr>entry_conversationId = js ''conv-1'', entry_agentId = js ''agent-A''\<rparr>)
   \<and> entry_agentId \<lparr>entry_conversationId = js ''conv-1'', entry_agentId = js ''agent-A''\<rparr> \<noteq> js ''agent-B''
   \<and> ok 200
   \<and> getOrCreateConversation (Some (bound_to ''conv-1'' ''agent-A'')) (created ''conv-2'' ''agent-B'')
        (js ''agent-B'') (js ''s1'') (session_state None) =
      (Inr (js ''conv-2''), session_state (Some (js ''conv-2'')),
       [PostConversation (js ''agent-B''),
        SaveConversationsMap ((bound_to ''conv-1'' ''agent-A'')
          (js ''s1'' \<mapsto> Entry \<lparr>entry_conversationId = js ''conv-2'', entry_agentId = js ''agent-B''\<rparr>))])
   \<and> [js ''__proto__'' \<mapsto> Legacy (js ''conv-1'')] (js ''__proto__'') = Some (Legacy (js ''conv-1''))
   \<and> getOrCreateConversation (Some [js ''__proto__'' \<mapsto> Legacy (js ''conv-1'')])
        (created ''conv-2'' ''agent-B'') (js ''agent-B'') (js ''__proto__'') (session_state None) =
      (Inr (js ''conv-2''), session_state (Some (js ''conv-2'')),
       [PostConversation (js ''agent-B''),
        SaveConversationsMap
          ([js ''__proto__'' \<mapsto> Legacy (js ''conv-1'')](js ''__proto__'' := None))])"
proof -
  have h1: "\<not> truthy (conversationId (session_state None))"
    by (simp add: session_state_def truthy_def)
  have h2: "bound_to ''conv-1'' ''agent-A'' (js ''s1'') =
       Some (Entry \<lparr>entry_conversationId = js ''conv-1'', entry_agentId = js ''agent-A''\<rparr>)"
    by (simp add: bound_to_def)
  have h3: "entry_agentId \<lparr>entry_conversationId = js ''conv-1'', entry_agentId = js ''agent-A''\<rparr> \<noteq> js ''agent-B''"
    by (simp add: js_simps)
  have h4: "ok 200"
    by (simp add: ok_def)
  have upd: "(session_state None)\<lparr>conversationId := Some (js ''conv-2'')\<rparr> = session_state (Some (js ''conv-2''))"
    by (simp add: session_state_def)
  have ne1: "js ''s1'' \<noteq> js ''__proto__''" and ne2: "js ''conv-1'' \<noteq> []"
    by (simp_all add: js_simps)
  have h3': "Entry \<lparr>entry_conversationId = js ''conv-1'', entry_agentId = js ''agent-A''\<rparr> = Legacy []
      \<or> (Entry \<lparr>entry_conversationId = js ''conv-1'', entry_agentId = js ''agent-A''\<rparr> =
            Entry \<lparr>entry_conversationId = js ''conv-1'', entry_agentId = js ''agent-A''\<rparr>
          \<and> entry_agentId \<lparr>entry_conversationId = js ''conv-1'', entry_agentId = js ''agent-A''\<rparr> \<noteq> js ''agent-B'')"
    using h3 by blast
  have first: "getOrCreateConversation (Some (bound_to ''conv-1'' ''agent-A'')) (created ''conv-2'' ''agent-B'')
        (js ''agent-B'') (js ''s1'') (session_state None) =
      (Inr (js ''conv-2''), session_state (Some (js ''conv-2'')),
       [PostConversation (js ''agent-B''),
        SaveConversationsMap ((bound_to ''conv-1'' ''agent-A'')
          (js ''s1'' \<mapsto> Entry \<lparr>entry_conversationId = js ''conv-2'', entry_agentId = js ''agent-B''\<rparr>))])"
    using stale_binding_recreated
            [where table = "bound_to ''conv-1'' ''agent-A''" and sid = "js ''s1''"
               and state = "session_state None"
               and conversation = "\<lparr>conv_id = js ''conv-2'', conv_agent_id = js ''agent-B'', created_at = None\<rparr>",
             OF h1 h2 h3' h4]
    by (simp add: created_def upd ne1)
  have p2: "[js ''__proto__'' \<mapsto> Legacy (js ''conv-1'')] (js ''__proto__'') = Some (Legacy (js ''conv-1''))"
    by simp
  have p3: "Legacy (js ''conv-1'') = Legacy (js ''conv-1'')
      \<or> (Legacy (js ''conv-1'') = Entry \<lparr>entry_conversationId = [], entry_agentId = []\<rparr>
          \<and> entry_agentId \<lparr>entry_conversationId = [], entry_agentId = []\<rparr> \<noteq> js ''agent-B'')"
    by simp
  have second: "getOrCreateConversation (Some [js ''__proto__'' \<mapsto> Legacy (js ''conv-1'')])
        (created ''conv-2'' ''agent-B'') (js ''agent-B'') (js ''__proto__'') (session_state None) =
      (Inr (js ''conv-2''), session_state (Some (js ''conv-2'')),
       [PostConversation (js ''agent-B''),
        SaveConversationsMap
          ([js ''__proto__'' \<mapsto> Legacy (js ''conv-1'')](js ''__proto__'' := None))])"
    using stale_binding_recreated
            [where table = "[js ''__proto__'' \<mapsto> Legacy (js ''conv-1'')]" and sid = "js ''__proto__''"
               and state = "session_state None"
               and conversation = "\<lparr>conv_id = js ''conv-2'', conv_agent_id = js ''agent-B'', created_at = None\<rparr>",
             OF h1 p2 p3 h4]
    by (simp add: created_def upd ne2)
  from h1 h2 h3 h4 first p2 second show ?thesis by blast
qed

text \<open>
  C5. A session record that carries a \<open>conversationId\<close> gets it back unchanged, and
  otherwise a table entry whose recorded agent is the current agent gives its
  \<open>conversationId\<close>; in both cases \<open>getOrCreateConversation\<close> has no effect outside
  the record: no creation request and no write. "Carries" and "recorded" are the tests
  of the code, \<open>if (state.conversationId)\<close> and \<open>entry.agentId && ...\<close>: the string is
  present and not empty.
\<close>

theorem existing_conversation_reused:
  "(conversationId state = Some existing \<and> truthy (Some existing) \<longrightarrow>
      getOrCreateConversation conversations_file create_response agentId sid state =
        (Inr existing, state, []))
   \<and> (\<not> truthy (conversationId state)
        \<and> loadConversationsMap conversations_file sid = Some (Entry entry)
        \<and> truthy (Some (entry_agentId entry)) \<and> entry_agentId entry = agentId \<longrightarrow>
      getOrCreateConversation conversations_file create_response agentId sid state =
        (Inr (entry_conversationId entry),
         state\<lparr>conversationId := Some (entry_conversationId entry)\<rparr>, []))
   \<and> (truthy (conversationId state)
        \<or> (loadConversationsMap conversations_file sid = Some (Entry entry)
            \<and> truthy (Some (entry_agentId entry)) \<and> entry_agentId entry = agentId) \<longrightarrow>
      snd (snd (getOrCreateConversation conversations_file create_response agentId sid state)) = [])"
  by (auto simp: getOrCreateConversation_def truthy_def)

theorem existing_conversation_reused_witness:
  "conversationId (session_state (Some (js ''conv-1''))) = Some (js ''conv-1'')
   \<and> truthy (Some (js ''conv-1''))
   \<and> getOrCreateConversation None (created ''conv-2'' ''agent-A'') (js ''agent-A'') (js ''s1'')
        (session_state (Some (js ''conv-1''))) =
      (Inr (js ''conv-1''), session_state (Some (js ''conv-1'')), [])
   \<and> \<not> truthy (conversationId (session_state None))
   \<and> loadConversationsMap (Some (bound_to ''conv-1'' ''agent-A'')) (js ''s1'') =
       Some (Entry \<lparr>entry_conversationId = js ''conv-1'', entry_agentId = js ''agent-A''\<rparr>)
   \<and> truthy (Some (js ''agent-A''))
   \<and> getOrCreateConversation (Some (bound_to ''conv-1'' ''agent-A'')) (created ''conv-2'' ''agent-A'')
        (js ''agent-A'') (js ''s1'') (session_state None) =
      (Inr (js ''conv-1''), session_state (Some (js ''conv-1'')), [])"
proof -
  have a1: "conversationId (session_state (Some (js ''conv-1''))) = Some (js ''conv-1'')
            \<and> truthy (Some (js ''conv-1''))"
    by (simp add: session_state_def truthy_def js_simps)
  have b1: "\<not> truthy (conversationId (session_state None))"
    by (simp add: session_state_def truthy_def)
  have b2: "loadConversationsMap (Some (bound_to ''conv-1'' ''agent-A'')) (js ''s1'') =
       Some (Entry \<lparr>entry_conversationId = js ''conv-1'', entry_agentId = js ''agent-A''\<rparr>)"
    by (simp add: loadConversationsMap_def bound_to_def)
  have b3: "truthy (Some (js ''agent-A''))"
    by (simp add: truthy_def js_simps)
  have upd: "(session_state None)\<lparr>conversationId := Some (js ''conv-1'')\<rparr> = session_state (Some (js ''conv-1''))"
    by (simp add: session_state_def)
  from existing_conversation_reused
         [of "session_state (Some (js ''conv-1''))" "js ''conv-1''" None "created ''conv-2'' ''agent-A''"
             "js ''agent-A''" "js ''s1''"] a1
  have first: "getOrCreateConversation None (created ''conv-2'' ''agent-A'') (js ''agent-A'') (js ''s1'')
        (session_state (Some (js ''conv-1''))) =
      (Inr (js ''conv-1''), session_state (Some (js ''conv-1'')), [])"
    by blast
  from existing_conversation_reused
         [of "session_state None" _ "Some (bound_to ''conv-1'' ''agent-A'')" "created ''conv-2'' ''agent-A''"
             "js ''agent-A''" "js ''s1''"
             "\<lparr>entry_conversationId = js ''conv-1'', entry_agentId = js ''agent-A''\<rparr>"] b1 b2 b3
  have second: "getOrCreateConversation (Some (bound_to ''conv-1'' ''agent-A'')) (created ''conv-2'' ''agent-A'')
        (js ''agent-A'') (js ''s1'') (session_state None) =
      (Inr (js ''conv-1''), session_state (Some (js ''conv-1'')), [])"
    by (simp add: upd)
  from a1 first b1 b2 b3 second show ?thesis by blast
qed

section \<open>Sync orchestrator: order of effects and failure of the message request\<close>

text \<open>
  The resolver and the early notification leave cursor and block values of the state
  alone and neither print, save the session record nor exit; the traces of the two
  \<open>main\<close> functions have a fixed shape.
\<close>

lemma getOrCreateConversation_events:
  "getOrCreateConversation file create agentId sid state = (res, state', events) \<Longrightarrow>
   lastSeenMessageId state' = lastSeenMessageId state
   \<and> lastBlockValues state' = lastBlockValues state
   \<and> (\<forall>e\<in>set events. (\<exists>a. e = PostConversation a) \<or> (\<exists>m. e = SaveConversationsMap m))"
  by (auto simp: getOrCreateConversation_def create_and_store_def Let_def
           split: if_splits option.splits cached.splits sum.splits)

lemma notify_early_events:
  assumes "notify_early env agentId sid state = (state', events)"
  shows "map_option lastSeenMessageId state' = map_option lastSeenMessageId state"
    and "\<forall>e\<in>set events. (\<forall>n. e \<noteq> Exit n) \<and> (\<forall>p. e \<noteq> Stdout p) \<and> (\<forall>d s. e \<noteq> SaveSyncState d s)"
  using assms
  by (auto simp: notify_early_def Let_def
           split: option.splits if_splits prod.splits sum.splits
           dest!: getOrCreateConversation_events)

lemma main_sync_shape:
  "main_sync_letta_memory env = [Stderr, Exit 1]
   \<or> (\<exists>dir agent conv. main_sync_letta_memory env = [UpdateClaudeMd dir agent conv, Stderr, Exit 1])
   \<or> (\<exists>dir agent conv p rest. main_sync_letta_memory env = UpdateClaudeMd dir agent conv # Stdout p # rest)"
  unfolding main_sync_letta_memory_def Let_def
  by (simp split: sum.split prod.split)

lemma main_pretool_shape:
  "main_pretool_sync env = [Exit 0]
   \<or> (\<exists>dir st p. main_pretool_sync env = [SaveSyncState dir st, Stdout p])"
  unfolding main_pretool_sync_def Let_def
  by (simp split: sum.split option.split prod.split)


lemmas example_defs =
  example_environment_def example_agent_def session_state_def persona_block_def
  example_feed_def assistant_message_def

lemmas main_defs =
  main_sync_letta_memory_def main_pretool_sync_def Let_def hook_session_id_def working_dir_def
  load_state_def recover_conversationId_def update_state_def notify_early_def loadSyncState_def
  fetchAgent_def detectChangedBlocks_def detectChangedBlocks_pretool_def block_values_of_def
  assign_property_def rendering_throws_def

lemmas tracker_defs =
  fetchAssistantMessages_def fetchNewMessages_def new_since_eq is_assistant_def has_text_def
  message_info_def truthy_def ok_def or_else_def or_null_def


lemma fetch_not_ok:
  "\<not> ok status \<Longrightarrow>
   fetchAssistantMessages (Http status body) conv cursor =
     Inr \<lparr>messages = [], lastMessageId = (if truthy conv then cursor else None)\<rparr>"
  "\<not> ok status \<Longrightarrow>
   fetchNewMessages (Http status body) conv cursor =
     Inr \<lparr>messages = [], lastMessageId = (if truthy conv then cursor else None)\<rparr>"
  by (simp_all add: fetchAssistantMessages_def fetchNewMessages_def)

lemma notify_early_cursor:
  "map_option lastSeenMessageId (fst (notify_early env agentId sid state)) =
   map_option lastSeenMessageId state"
  using notify_early_events(1) [of env agentId sid state] by (cases "notify_early env agentId sid state") simp

lemma notify_early_no_exit:
  "e \<in> set (snd (notify_early env agentId sid state)) \<Longrightarrow>
   (\<forall>n. e \<noteq> Exit n) \<and> (\<forall>p. e \<noteq> Stdout p) \<and> (\<forall>d s. e \<noteq> SaveSyncState d s)"
  using notify_early_events(2) [of env agentId sid state] by (cases "notify_early env agentId sid state") simp

lemma keep_cursor:
  "truthy (or_null c) \<Longrightarrow> or_null c = c"
  by (simp add: or_null_def truthy_def split: if_splits)


lemma load_state_cursor:
  "load_state env = Some st \<Longrightarrow>
   lastSeenMessageId st =
     (case env_session_file env of Some s \<Rightarrow> lastSeenMessageId s | None \<Rightarrow> None)"
  by (auto simp: load_state_def loadSyncState_def split: option.splits if_splits)

lemma recover_conversationId_cursor:
  "map_option lastSeenMessageId (fst (recover_conversationId env state)) =
   map_option lastSeenMessageId state"
  "map_option lastBlockValues (fst (recover_conversationId env state)) =
   map_option lastBlockValues state"
  by (cases state; simp add: recover_conversationId_def Let_def split: option.splits)+

lemma update_state_cursor:
  assumes "last_id = None \<or> last_id = or_null (case state of None \<Rightarrow> None | Some st \<Rightarrow> lastSeenMessageId st)"
  shows "map_option lastSeenMessageId (update_state state agent_blocks last_id) =
         map_option lastSeenMessageId state"
proof (cases state)
  case None
  then show ?thesis by (simp add: update_state_def)
next
  case (Some st)
  from assms show ?thesis
  proof
    assume "last_id = None"
    with Some show ?thesis by (simp add: update_state_def truthy_def)
  next
    assume "last_id = or_null (case state of None \<Rightarrow> None | Some st \<Rightarrow> lastSeenMessageId st)"
    with Some have "last_id = or_null (lastSeenMessageId st)" by simp
    with Some show ?thesis
      by (simp add: update_state_def Let_def keep_cursor)
  qed
qed

lemma fetch_not_ok_as_empty:
  "\<not> ok status \<Longrightarrow>
   fetchAssistantMessages (Http status body) conv cursor =
     fetchAssistantMessages (Http 200 (Some [])) conv cursor"
  "\<not> ok status \<Longrightarrow>
   fetchNewMessages (Http status body) conv cursor =
     fetchNewMessages (Http 200 (Some [])) conv cursor"
  by (simp_all add: fetchAssistantMessages_def fetchNewMessages_def new_since_eq ok_def)

lemma notify_early_values:
  "map_option lastBlockValues (fst (notify_early env agentId sid state)) =
   map_option lastBlockValues state"
  by (auto simp: notify_early_def Let_def
           split: option.splits if_splits prod.splits sum.splits
           dest!: getOrCreateConversation_events)

lemma load_state_values:
  "load_state env = Some st \<Longrightarrow>
   lastBlockValues st =
     (case env_session_file env of Some s \<Rightarrow> lastBlockValues s | None \<Rightarrow> None)"
  by (auto simp: load_state_def loadSyncState_def split: option.splits if_splits)

lemma update_state_None:
  assumes "last_id = None \<or> last_id = or_null (case state of None \<Rightarrow> None | Some st \<Rightarrow> lastSeenMessageId st)"
  shows "update_state state agent_blocks last_id = update_state state agent_blocks None"
proof (cases state)
  case None
  then show ?thesis by (simp add: update_state_def)
next
  case (Some st)
  from assms show ?thesis
  proof
    assume "last_id = None"
    then show ?thesis by simp
  next
    assume "last_id = or_null (case state of None \<Rightarrow> None | Some st \<Rightarrow> lastSeenMessageId st)"
    with Some have eq: "last_id = or_null (lastSeenMessageId st)" by simp
    show ?thesis
    proof (cases "truthy last_id")
      case True
      with eq have "last_id = lastSeenMessageId st"
        using keep_cursor [of "lastSeenMessageId st"] by simp
      with Some True show ?thesis
        by (simp add: update_state_def Let_def) (simp add: truthy_def)
    next
      case False
      with Some show ?thesis
        by (simp add: update_state_def Let_def truthy_def)
    qed
  qed
qed

lemma update_state_fields:
  "map_option lastSeenMessageId (update_state state agent_blocks None) =
   map_option lastSeenMessageId state"
  "map_option lastBlockValues (update_state state agent_blocks None) =
   map_option (\<lambda>st. Some (block_values_of agent_blocks)) state"
  by (cases state; simp add: update_state_def Let_def truthy_def)+

lemma recover_conversationId_values:
  "(case fst (recover_conversationId env state) of None \<Rightarrow> None | Some st \<Rightarrow> lastBlockValues st) =
   (case state of None \<Rightarrow> None | Some st \<Rightarrow> lastBlockValues st)"
  "(case fst (recover_conversationId env state) of None \<Rightarrow> None | Some st \<Rightarrow> lastSeenMessageId st) =
   (case state of None \<Rightarrow> None | Some st \<Rightarrow> lastSeenMessageId st)"
  "(fst (recover_conversationId env state) = None) = (state = None)"
  by (cases state; simp add: recover_conversationId_def Let_def split: option.splits)+

lemma main_sync_degraded:
  assumes "\<not> ok status" and "truthy (env_apiKey env)" and "env_getAgentId env = Inr agentId"
    and "fetchAgent (env_agent_response env) = Inr agent"
    and "env_messages_response env = Http status body"
  shows "main_sync_letta_memory env =
           (let agent_blocks = (case blocks agent of Some bs \<Rightarrow> bs | None \<Rightarrow> []);
                previous = (case load_state env of None \<Rightarrow> None | Some st \<Rightarrow> lastBlockValues st);
                changed = detectChangedBlocks agent_blocks previous;
                recovered = recover_conversationId env (load_state env);
                notified = notify_early env agentId (hook_session_id env)
                             (update_state (fst recovered) agent_blocks None)
            in if rendering_throws changed previous
               then [UpdateClaudeMd (working_dir env) agent (snd recovered), Stderr, Exit 1]
               else [UpdateClaudeMd (working_dir env) agent (snd recovered),
                     Stdout \<lparr>from_agent = agent, new_messages = [], changed_blocks = changed,
                             previous_values = previous\<rparr>]
                    @ snd notified
                    @ (case fst notified of
                         Some st \<Rightarrow> [SaveSyncState (working_dir env) st]
                       | None \<Rightarrow> []))"
proof -
  obtain state conv where rec: "recover_conversationId env (load_state env) = (state, conv)"
    by (cases "recover_conversationId env (load_state env)")
  define cursor where
    "cursor = or_null (case state of None \<Rightarrow> None | Some st \<Rightarrow> lastSeenMessageId st)"
  define agent_blocks where "agent_blocks = (case blocks agent of Some bs \<Rightarrow> bs | None \<Rightarrow> [])"
  have prev: "(case state of None \<Rightarrow> None | Some st \<Rightarrow> lastBlockValues st) =
              (case load_state env of None \<Rightarrow> None | Some st \<Rightarrow> lastBlockValues st)"
    using recover_conversationId_values(1) [of env "load_state env"] by (simp add: rec)
  have upd: "update_state state agent_blocks cursor = update_state state agent_blocks None"
    by (rule update_state_None) (simp add: cursor_def)
  show ?thesis
    using assms
    by (simp add: main_sync_letta_memory_def Let_def rec fetch_not_ok prev
          flip: cursor_def agent_blocks_def) (simp add: upd)
qed

lemma main_pretool_degraded:
  assumes "\<not> ok status" and "truthy (env_apiKey env)" and "env_hookInput env = Some hook"
    and "session_id hook = Some sid" and "sid \<noteq> []" and "cwd hook = Some dir" and "dir \<noteq> []"
    and "env_getAgentId env = Inr agentId"
    and "fetchAgent (env_agent_response env) = Inr agent"
    and "env_messages_response env = Http status body"
  shows "main_pretool_sync env =
           (let state = loadSyncState (env_session_file env) sid;
                changed = detectChangedBlocks_pretool
                            (case blocks agent of Some bs \<Rightarrow> bs | None \<Rightarrow> []) (lastBlockValues state)
            in if (lastBlockValues state = None \<and> \<not> truthy (lastSeenMessageId state))
                  \<or> changed = [] \<or> rendering_throws changed (lastBlockValues state)
               then [Exit 0]
               else [SaveSyncState dir
                       (case blocks agent of
                          Some bs \<Rightarrow> state\<lparr>lastBlockValues := Some (block_values_of bs)\<rparr>
                        | None \<Rightarrow> state),
                     Stdout \<lparr>from_agent = agent, new_messages = [], changed_blocks = changed,
                             previous_values = lastBlockValues state\<rparr>])"
proof -
  define state where "state = loadSyncState (env_session_file env) sid"
  have keep: "truthy (or_null (lastSeenMessageId state)) \<Longrightarrow>
              state\<lparr>lastSeenMessageId := or_null (lastSeenMessageId state)\<rparr> = state"
    by (cases "lastSeenMessageId state") (auto simp: or_null_def truthy_def split: if_splits)
  have none: "\<not> truthy None"
    by (simp add: truthy_def)
  show ?thesis
    using assms
    by (auto simp: main_pretool_sync_def Let_def fetch_not_ok keep none
             simp flip: state_def split: option.splits)
qed

lemma same_as_empty_feed:
  assumes "\<not> ok status"
  shows "main_sync_letta_memory (env\<lparr>env_messages_response := Http status body\<rparr>) =
         main_sync_letta_memory (env\<lparr>env_messages_response := Http 200 (Some [])\<rparr>)"
    and "main_pretool_sync (env\<lparr>env_messages_response := Http status body\<rparr>) =
         main_pretool_sync (env\<lparr>env_messages_response := Http 200 (Some [])\<rparr>)"
  using assms
  by (simp_all add: main_sync_letta_memory_def main_pretool_sync_def fetch_not_ok_as_empty
        working_dir_def hook_session_id_def load_state_def recover_conversationId_def
        notify_early_def
        cong del: if_weak_cong option.case_cong_weak sum.case_cong_weak prod.case_cong_weak)

text \<open>
  C2. The payload is not always emitted before the session record is saved: \<open>main\<close>
  of \<^verbatim>\<open>pretool_sync.ts\<close> calls \<open>saveSyncState\<close> first and prints the payload
  afterwards. In this run the record with the new block values and the new cursor is
  saved, then the delta is printed.
\<close>

theorem persist_before_emit_counterexample:
  "main_pretool_sync (example_environment (Http 200 (Some example_feed))) =
     [SaveSyncState (js ''/project'')
        \<lparr>lastProcessedIndex = 0, sessionId = js ''s1'', conversationId = Some (js ''conv-1''),
         lastBlockValues =
           Some [js ''persona'' \<mapsto> js (''likes cats'' @ [CHR 0x0A] @ ''likes dogs'')],
         lastSeenMessageId = Some (js ''m5'')\<rparr>,
      Stdout
        \<lparr>from_agent = example_agent,
         new_messages =
           [\<lparr>info_id = js ''m5'', info_text = js ''five'', info_date = None\<rparr>,
            \<lparr>info_id = js ''m4'', info_text = js ''four'', info_date = None\<rparr>],
         changed_blocks = [persona_block (''likes cats'' @ [CHR 0x0A] @ ''likes dogs'')],
         previous_values = Some [js ''persona'' \<mapsto> js ''likes cats'']\<rparr>]"
  by (simp add: main_defs example_defs tracker_defs js_simps)

text \<open>
  C2, as the code has it. In \<open>main\<close> of \<^verbatim>\<open>sync_letta_memory.ts\<close> every save of the
  session record comes after the payload was printed; in \<open>main\<close> of
  \<^verbatim>\<open>pretool_sync.ts\<close> a run that prints a payload has saved the session record
  first, and does nothing else.
\<close>

theorem emit_and_persist_order:
  "(main_sync_letta_memory env = before @ SaveSyncState dir st # after \<longrightarrow>
      (\<exists>p. Stdout p \<in> set before))
   \<and> (Stdout p' \<in> set (main_pretool_sync env') \<longrightarrow>
      (\<exists>dir' st'. main_pretool_sync env' = [SaveSyncState dir' st', Stdout p']))"
proof (intro conjI impI)
  assume trace: "main_sync_letta_memory env = before @ SaveSyncState dir st # after"
  from main_sync_shape [of env] show "\<exists>p. Stdout p \<in> set before"
  proof (elim disjE)
    assume "main_sync_letta_memory env = [Stderr, Exit 1]"
    with trace have "SaveSyncState dir st \<in> set [Stderr, Exit 1]"
      by (metis in_set_conv_decomp)
    then show ?thesis by simp
  next
    assume "\<exists>d agent conv. main_sync_letta_memory env = [UpdateClaudeMd d agent conv, Stderr, Exit 1]"
    then obtain d agent conv where
      "main_sync_letta_memory env = [UpdateClaudeMd d agent conv, Stderr, Exit 1]"
      by blast
    with trace have "SaveSyncState dir st \<in> set [UpdateClaudeMd d agent conv, Stderr, Exit 1]"
      by (metis in_set_conv_decomp)
    then show ?thesis by simp
  next
    assume "\<exists>d agent conv p rest.
              main_sync_letta_memory env = UpdateClaudeMd d agent conv # Stdout p # rest"
    then obtain d agent conv p rest where
      "before @ SaveSyncState dir st # after = UpdateClaudeMd d agent conv # Stdout p # rest"
      using trace by auto
    then have "Stdout p \<in> set before"
      by (auto simp: append_eq_Cons_conv)
    then show ?thesis ..
  qed
next
  assume emitted: "Stdout p' \<in> set (main_pretool_sync env')"
  from main_pretool_shape [of env']
  show "\<exists>dir' st'. main_pretool_sync env' = [SaveSyncState dir' st', Stdout p']"
    using emitted by auto
qed

theorem emit_and_persist_order_witness:
  "main_sync_letta_memory (example_environment (Http 200 (Some example_feed))) =
     [UpdateClaudeMd (js ''/project'') example_agent (Some (js ''conv-1'')),
      Stdout
        \<lparr>from_agent = example_agent,
         new_messages =
           [\<lparr>info_id = js ''m5'', info_text = js ''five'', info_date = None\<rparr>,
            \<lparr>info_id = js ''m4'', info_text = js ''four'', info_date = None\<rparr>],
         changed_blocks = [persona_block (''likes cats'' @ [CHR 0x0A] @ ''likes dogs'')],
         previous_values = Some [js ''persona'' \<mapsto> js ''likes cats'']\<rparr>]
     @ SaveSyncState (js ''/project'')
        \<lparr>lastProcessedIndex = 0, sessionId = js ''s1'', conversationId = Some (js ''conv-1''),
         lastBlockValues =
           Some [js ''persona'' \<mapsto> js (''likes cats'' @ [CHR 0x0A] @ ''likes dogs'')],
         lastSeenMessageId = Some (js ''m5'')\<rparr> # []
   \<and> (\<exists>p. Stdout p \<in>
          set [UpdateClaudeMd (js ''/project'') example_agent (Some (js ''conv-1'')),
               Stdout
                 \<lparr>from_agent = example_agent,
                  new_messages =
                    [\<lparr>info_id = js ''m5'', info_text = js ''five'', info_date = None\<rparr>,
                     \<lparr>info_id = js ''m4'', info_text = js ''four'', info_date = None\<rparr>],
                  changed_blocks = [persona_block (''likes cats'' @ [CHR 0x0A] @ ''likes dogs'')],
                  previous_values = Some [js ''persona'' \<mapsto> js ''likes cats'']\<rparr>])
   \<and> Stdout
        \<lparr>from_agent = example_agent,
         new_messages =
           [\<lparr>info_id = js ''m5'', info_text = js ''five'', info_date = None\<rparr>,
            \<lparr>info_id = js ''m4'', info_text = js ''four'', info_date = None\<rparr>],
         changed_blocks = [persona_block (''likes cats'' @ [CHR 0x0A] @ ''likes dogs'')],
         previous_values = Some [js ''persona'' \<mapsto> js ''likes cats'']\<rparr>
       \<in> set (main_pretool_sync (example_environment (Http 200 (Some example_feed))))
   \<and> (\<exists>dir' st'. main_pretool_sync (example_environment (Http 200 (Some example_feed))) =
         [SaveSyncState dir' st',
          Stdout
            \<lparr>from_agent = example_agent,
             new_messages =
               [\<lparr>info_id = js ''m5'', info_text = js ''five'', info_date = None\<rparr>,
                \<lparr>info_id = js ''m4'', info_text = js ''four'', info_date = None\<rparr>],
             changed_blocks = [persona_block (''likes cats'' @ [CHR 0x0A] @ ''likes dogs'')],
             previous_values = Some [js ''persona'' \<mapsto> js ''likes cats'']\<rparr>])"
  (is "?sync = ?before @ ?save # [] \<and> ?emitted_before \<and> ?emitted \<and> ?pretool")
proof -
  have sync: "?sync = ?before @ ?save # []"
    by (simp add: main_defs example_defs tracker_defs js_simps)
  have emitted: ?emitted
    by (simp add: main_defs example_defs tracker_defs js_simps)
  from emit_and_persist_order
         [of "example_environment (Http 200 (Some example_feed))" ?before "js ''/project''" _ "[]"
             _ "example_environment (Http 200 (Some example_feed))"]
       sync emitted
  show ?thesis by blast
qed

text \<open>
  C9. A response to the message request whose status is not between 200 and 299 makes
  both trackers return no new message and the cursor they were given, and both \<open>main\<close>
  functions then run exactly as on an empty feed. With the agent fetched, \<open>main\<close> of
  \<^verbatim>\<open>sync_letta_memory.ts\<close> writes \<^verbatim>\<open>CLAUDE.md\<close>, prints the payload with no
  message and with the blocks that \<open>detectChangedBlocks\<close> finds against the stored
  block values, runs the early notification and saves the state with the stored cursor
  and the new block values; it does not exit. \<open>main\<close> of \<^verbatim>\<open>pretool_sync.ts\<close> ends
  silently when nothing is stored or no block changed, and otherwise saves and prints
  in the same way. The only exit is the one the formatter of the changed blocks causes
  by itself, for a changed block whose label names a member of \<open>Object.prototype\<close>.
  The stored state is the session file of the hook's session: its cursor and its block
  values are the ones read back, and without a session nothing is loaded or saved.
\<close>

theorem message_fetch_failure_degrades:
  assumes "\<not> ok status"
  shows "(truthy conv \<longrightarrow>
            fetchAssistantMessages (Http status body) conv cursor =
              Inr \<lparr>messages = [], lastMessageId = cursor\<rparr>
            \<and> fetchNewMessages (Http status body) conv cursor =
              Inr \<lparr>messages = [], lastMessageId = cursor\<rparr>)
       \<and> main_sync_letta_memory (env0\<lparr>env_messages_response := Http status body\<rparr>) =
           main_sync_letta_memory (env0\<lparr>env_messages_response := Http 200 (Some [])\<rparr>)
       \<and> main_pretool_sync (env0\<lparr>env_messages_response := Http status body\<rparr>) =
           main_pretool_sync (env0\<lparr>env_messages_response := Http 200 (Some [])\<rparr>)
       \<and> (truthy (env_apiKey env) \<and> env_getAgentId env = Inr agentId
            \<and> fetchAgent (env_agent_response env) = Inr agent
            \<and> env_messages_response env = Http status body \<longrightarrow>
            (let agent_blocks = (case blocks agent of Some bs \<Rightarrow> bs | None \<Rightarrow> []);
                 previous = (case load_state env of None \<Rightarrow> None | Some st \<Rightarrow> lastBlockValues st);
                 changed = detectChangedBlocks agent_blocks previous;
                 recovered = recover_conversationId env (load_state env);
                 notified = notify_early env agentId (hook_session_id env)
                              (update_state (fst recovered) agent_blocks None)
             in main_sync_letta_memory env =
                  (if rendering_throws changed previous
                   then [UpdateClaudeMd (working_dir env) agent (snd recovered), Stderr, Exit 1]
                   else [UpdateClaudeMd (working_dir env) agent (snd recovered),
                         Stdout \<lparr>from_agent = agent, new_messages = [], changed_blocks = changed,
                                 previous_values = previous\<rparr>]
                        @ snd notified
                        @ (case fst notified of
                             Some st \<Rightarrow> [SaveSyncState (working_dir env) st]
                           | None \<Rightarrow> []))
                \<and> (\<forall>e\<in>set (snd notified).
                      (\<forall>n. e \<noteq> Exit n) \<and> (\<forall>p. e \<noteq> Stdout p) \<and> (\<forall>d s. e \<noteq> SaveSyncState d s))
                \<and> map_option lastSeenMessageId (fst notified) =
                    map_option lastSeenMessageId (load_state env)
                \<and> map_option lastBlockValues (fst notified) =
                    map_option (\<lambda>st. Some (block_values_of agent_blocks)) (load_state env)
                \<and> (\<forall>st. load_state env = Some st \<longrightarrow>
                      lastSeenMessageId st =
                        (case env_session_file env of Some s \<Rightarrow> lastSeenMessageId s | None \<Rightarrow> None)
                      \<and> lastBlockValues st =
                        (case env_session_file env of Some s \<Rightarrow> lastBlockValues s | None \<Rightarrow> None))
                \<and> (\<forall>h s. env_hookInput env = Some h \<and> session_id h = Some s \<and> s \<noteq> [] \<longrightarrow>
                      load_state env = Some (loadSyncState (env_session_file env) s))
                \<and> ((\<forall>h s. env_hookInput env = Some h \<and> session_id h = Some s \<longrightarrow> s = []) \<longrightarrow>
                      load_state env = None)
                \<and> (rendering_throws changed previous \<longrightarrow>
                      (\<exists>block\<in>set changed. inherited (label block)))))
       \<and> (truthy (env_apiKey env) \<and> env_hookInput env = Some hook
            \<and> session_id hook = Some sid \<and> sid \<noteq> [] \<and> cwd hook = Some dir \<and> dir \<noteq> []
            \<and> env_getAgentId env = Inr agentId
            \<and> fetchAgent (env_agent_response env) = Inr agent
            \<and> env_messages_response env = Http status body \<longrightarrow>
            main_pretool_sync env =
              (let state = loadSyncState (env_session_file env) sid;
                   changed = detectChangedBlocks_pretool
                               (case blocks agent of Some bs \<Rightarrow> bs | None \<Rightarrow> [])
                               (lastBlockValues state)
               in (if (lastBlockValues state = None \<and> \<not> truthy (lastSeenMessageId state))
                      \<or> changed = [] \<or> rendering_throws changed (lastBlockValues state)
                   then [Exit 0]
                   else [SaveSyncState dir
                           (case blocks agent of
                              Some bs \<Rightarrow> state\<lparr>lastBlockValues := Some (block_values_of bs)\<rparr>
                            | None \<Rightarrow> state),
                         Stdout \<lparr>from_agent = agent, new_messages = [], changed_blocks = changed,
                                 previous_values = lastBlockValues state\<rparr>])))
       \<and> (rendering_throws changed_blocks0 previous0 \<longrightarrow>
            (\<exists>block\<in>set changed_blocks0. inherited (label block)))
       \<and> lastSeenMessageId (loadSyncState stored sid0) =
           (case stored of Some s \<Rightarrow> lastSeenMessageId s | None \<Rightarrow> None)
       \<and> lastBlockValues (loadSyncState stored sid0) =
           (case stored of Some s \<Rightarrow> lastBlockValues s | None \<Rightarrow> None)"
  (is "?tracker \<and> ?same_sync \<and> ?same_pretool \<and> (?sync_run \<longrightarrow> ?sync) \<and> (?pretool_run \<longrightarrow> ?pretool)
       \<and> ?throws \<and> ?stored_cursor \<and> ?stored_values")
proof -
  have throws_inherited:
    "rendering_throws changed previous \<longrightarrow> (\<exists>block\<in>set changed. inherited (label block))"
    for changed previous
    by (auto simp: rendering_throws_def list_ex_iff split: option.splits)
  have stored_cursor: ?stored_cursor and stored_values: ?stored_values
    by (simp_all add: loadSyncState_def split: option.splits)
  have tracker: ?tracker
    using assms by (simp add: fetch_not_ok)
  have same_sync: ?same_sync and same_pretool: ?same_pretool
    using assms by (rule same_as_empty_feed)+
  have sync: ?sync if run: ?sync_run
  proof -
    define agent_blocks where "agent_blocks = (case blocks agent of Some bs \<Rightarrow> bs | None \<Rightarrow> [])"
    define recovered where "recovered = recover_conversationId env (load_state env)"
    define notified where
      "notified = notify_early env agentId (hook_session_id env)
                    (update_state (fst recovered) agent_blocks None)"
    have trace: "main_sync_letta_memory env =
           (let agent_blocks = (case blocks agent of Some bs \<Rightarrow> bs | None \<Rightarrow> []);
                previous = (case load_state env of None \<Rightarrow> None | Some st \<Rightarrow> lastBlockValues st);
                changed = detectChangedBlocks agent_blocks previous;
                recovered = recover_conversationId env (load_state env);
                notified = notify_early env agentId (hook_session_id env)
                             (update_state (fst recovered) agent_blocks None)
            in if rendering_throws changed previous
               then [UpdateClaudeMd (working_dir env) agent (snd recovered), Stderr, Exit 1]
               else [UpdateClaudeMd (working_dir env) agent (snd recovered),
                     Stdout \<lparr>from_agent = agent, new_messages = [], changed_blocks = changed,
                             previous_values = previous\<rparr>]
                    @ snd notified
                    @ (case fst notified of
                         Some st \<Rightarrow> [SaveSyncState (working_dir env) st]
                       | None \<Rightarrow> []))"
      using assms run main_sync_degraded [of status env agentId agent body] by blast
    have quiet: "\<forall>e\<in>set (snd notified).
                   (\<forall>n. e \<noteq> Exit n) \<and> (\<forall>p. e \<noteq> Stdout p) \<and> (\<forall>d s. e \<noteq> SaveSyncState d s)"
      unfolding notified_def using notify_early_no_exit by blast
    have "map_option lastSeenMessageId (fst notified) =
          map_option lastSeenMessageId (fst recovered)"
      by (simp add: notified_def notify_early_cursor update_state_fields)
    then have cursor_kept: "map_option lastSeenMessageId (fst notified) =
                            map_option lastSeenMessageId (load_state env)"
      by (simp add: recovered_def recover_conversationId_cursor)
    have "map_option lastBlockValues (fst notified) =
          map_option (\<lambda>st. Some (block_values_of agent_blocks)) (fst recovered)"
      by (simp add: notified_def notify_early_values update_state_fields)
    also have "\<dots> = map_option (\<lambda>st. Some (block_values_of agent_blocks)) (load_state env)"
      using recover_conversationId_values(3) [of env "load_state env"]
      by (cases "fst recovered"; cases "load_state env") (simp_all add: recovered_def)
    finally have values_saved: "map_option lastBlockValues (fst notified) =
                    map_option (\<lambda>st. Some (block_values_of agent_blocks)) (load_state env)" .
    have stored: "\<forall>st. load_state env = Some st \<longrightarrow>
                      lastSeenMessageId st =
                        (case env_session_file env of Some s \<Rightarrow> lastSeenMessageId s | None \<Rightarrow> None)
                      \<and> lastBlockValues st =
                        (case env_session_file env of Some s \<Rightarrow> lastBlockValues s | None \<Rightarrow> None)"
      using load_state_cursor load_state_values by blast
    have with_session: "\<forall>h s. env_hookInput env = Some h \<and> session_id h = Some s \<and> s \<noteq> [] \<longrightarrow>
                      load_state env = Some (loadSyncState (env_session_file env) s)"
      by (simp add: load_state_def hook_session_id_def)
    have without_session: "(\<forall>h s. env_hookInput env = Some h \<and> session_id h = Some s \<longrightarrow> s = []) \<longrightarrow>
                      load_state env = None"
      by (auto simp: load_state_def hook_session_id_def split: option.splits)
    from trace quiet cursor_kept values_saved stored with_session without_session throws_inherited
    show ?thesis
      by (simp add: Let_def agent_blocks_def recovered_def notified_def)
  qed
  have pretool: ?pretool if run: ?pretool_run
    using assms run main_pretool_degraded [of status env hook sid dir agentId agent body]
    by blast
  from tracker same_sync same_pretool sync pretool throws_inherited stored_cursor stored_values
  show ?thesis
    by blast
qed


theorem message_fetch_failure_degrades_witness:
  "\<not> ok 500 \<and> truthy (Some (js ''conv-1''))
   \<and> fetchAssistantMessages (Http 500 None) (Some (js ''conv-1'')) (Some (js ''m3'')) =
       Inr \<lparr>messages = [], lastMessageId = Some (js ''m3'')\<rparr>
   \<and> fetchNewMessages (Http 500 None) (Some (js ''conv-1'')) (Some (js ''m3'')) =
       Inr \<lparr>messages = [], lastMessageId = Some (js ''m3'')\<rparr>
   \<and> main_sync_letta_memory
         ((example_environment (Http 200 (Some example_feed)))\<lparr>env_messages_response := Http 500 None\<rparr>) =
       main_sync_letta_memory
         ((example_environment (Http 200 (Some example_feed)))\<lparr>env_messages_response := Http 200 (Some [])\<rparr>)
   \<and> truthy (env_apiKey (example_environment (Http 500 None)))
   \<and> env_hookInput (example_environment (Http 500 None)) =
       Some \<lparr>session_id = Some (js ''s1''), cwd = Some (js ''/project''), prompt = None,
             transcript_path = None\<rparr>
   \<and> js ''s1'' \<noteq> [] \<and> js ''/project'' \<noteq> []
   \<and> env_getAgentId (example_environment (Http 500 None)) = Inr (js ''agent-A'')
   \<and> fetchAgent (env_agent_response (example_environment (Http 500 None))) = Inr example_agent
   \<and> env_messages_response (example_environment (Http 500 None)) = Http 500 None
   \<and> main_sync_letta_memory (example_environment (Http 500 None)) =
       [UpdateClaudeMd (js ''/project'') example_agent (Some (js ''conv-1'')),
        Stdout
          \<lparr>from_agent = example_agent, new_messages = [],
           changed_blocks = [persona_block (''likes cats'' @ [CHR 0x0A] @ ''likes dogs'')],
           previous_values = Some [js ''persona'' \<mapsto> js ''likes cats'']\<rparr>,
        SaveSyncState (js ''/project'')
          \<lparr>lastProcessedIndex = 0, sessionId = js ''s1'', conversationId = Some (js ''conv-1''),
           lastBlockValues =
             Some [js ''persona'' \<mapsto> js (''likes cats'' @ [CHR 0x0A] @ ''likes dogs'')],
           lastSeenMessageId = Some (js ''m3'')\<rparr>]
   \<and> main_pretool_sync (example_environment (Http 500 None)) =
       [SaveSyncState (js ''/project'')
          \<lparr>lastProcessedIndex = 0, sessionId = js ''s1'', conversationId = Some (js ''conv-1''),
           lastBlockValues =
             Some [js ''persona'' \<mapsto> js (''likes cats'' @ [CHR 0x0A] @ ''likes dogs'')],
           lastSeenMessageId = Some (js ''m3'')\<rparr>,
        Stdout
          \<lparr>from_agent = example_agent, new_messages = [],
           changed_blocks = [persona_block (''likes cats'' @ [CHR 0x0A] @ ''likes dogs'')],
           previous_values = Some [js ''persona'' \<mapsto> js ''likes cats'']\<rparr>]"
  (is "?h0 \<and> ?h1 \<and> ?t1 \<and> ?t2 \<and> ?same \<and> ?h2 \<and> ?h3 \<and> ?h4 \<and> ?h5 \<and> ?h6 \<and> ?h7 \<and> ?h8
       \<and> ?sync \<and> ?pretool")
proof -
  note step_defs =
    Let_def hook_session_id_def working_dir_def load_state_def recover_conversationId_def
    update_state_def notify_early_def loadSyncState_def detectChangedBlocks_def
    detectChangedBlocks_pretool_def block_values_of_def assign_property_def rendering_throws_def
  have h0: ?h0
    by (simp add: ok_def)
  have h1: ?h1
    by (simp add: truthy_def js_simps)
  have h2: ?h2 and h3: ?h3 and h6: ?h6 and h7: ?h7 and h8: ?h8
    by (simp_all add: example_environment_def truthy_def fetchAgent_def ok_def js_simps)
  have h4: ?h4 and h5: ?h5
    by (simp_all add: js_simps)
  note inst =
    message_fetch_failure_degrades
      [OF h0, of "Some (js ''conv-1'')" None "Some (js ''m3'')"
         "example_environment (Http 200 (Some example_feed))"
         "example_environment (Http 500 None)" "js ''agent-A''" example_agent
         "\<lparr>session_id = Some (js ''s1''), cwd = Some (js ''/project''), prompt = None,
           transcript_path = None\<rparr>"
         "js ''s1''" "js ''/project''"]
  from inst h1 have t: "?t1 \<and> ?t2 \<and> ?same"
    by blast
  from inst [THEN conjunct2, THEN conjunct2, THEN conjunct2, THEN conjunct1]
  have sync: ?sync
    by (simp add: step_defs example_defs truthy_def or_null_def fetchAgent_def ok_def js_simps)
  from inst [THEN conjunct2, THEN conjunct2, THEN conjunct2, THEN conjunct2]
  have pretool: ?pretool
    by (simp add: step_defs example_defs truthy_def or_null_def fetchAgent_def ok_def js_simps)
  from h0 h1 t h2 h3 h4 h5 h6 h7 h8 sync pretool show ?thesis
    by blast
qed

section \<open>Sync orchestrator: a stale binding in a whole run\<close>

text \<open>
  In \<open>main\<close> of \<^verbatim>\<open>sync_letta_memory.ts\<close> the conversation id is first recovered
  with \<open>lookupConversation\<close>, which does not look at the recorded agent, and stored in
  the state; \<open>getOrCreateConversation\<close> then takes its fast path. Here the table binds
  the session to agent A, the current agent is B and the prompt is present: the old
  conversation is used and no conversation is created.
\<close>

lemma sync_main_keeps_stale_binding:
  "main_sync_letta_memory
     ((example_environment (Http 200 (Some [])))
        \<lparr>env_getAgentId := Inr (js ''agent-B''),
         env_hookInput :=
           Some \<lparr>session_id = Some (js ''s1''), cwd = Some (js ''/project''),
                 prompt = Some (js ''hello''), transcript_path = None\<rparr>,
         env_session_file := Some (session_state None),
         env_conversations_file := Some (bound_to ''conv-1'' ''agent-A''),
         env_create_response := created ''conv-2'' ''agent-B''\<rparr>) =
   [UpdateClaudeMd (js ''/project'') example_agent (Some (js ''conv-1'')),
    Stdout
      \<lparr>from_agent = example_agent, new_messages = [],
       changed_blocks = [persona_block (''likes cats'' @ [CHR 0x0A] @ ''likes dogs'')],
       previous_values = Some [js ''persona'' \<mapsto> js ''likes cats'']\<rparr>,
    WritePayloadFile (js ''conv-1'') (js ''s1'') (js ''hello'') 0,
    SpawnWorker,
    SaveSyncState (js ''/project'')
      \<lparr>lastProcessedIndex = 0, sessionId = js ''s1'', conversationId = Some (js ''conv-1''),
       lastBlockValues =
         Some [js ''persona'' \<mapsto> js (''likes cats'' @ [CHR 0x0A] @ ''likes dogs'')],
       lastSeenMessageId = Some (js ''m3'')\<rparr>]"
  by (simp add: main_defs example_defs tracker_defs getOrCreateConversation_def
        lookupConversation_def bound_to_def created_def countTranscriptLines_def js_simps)

section \<open>Sync orchestrator: a label that names an inherited member\<close>

text \<open>
  A new block labelled \<open>constructor\<close> is a changed block; its previous value is read
  as the inherited function, and the formatter throws. \<open>main\<close> of
  \<^verbatim>\<open>sync_letta_memory.ts\<close> has written \<^verbatim>\<open>CLAUDE.md\<close> by then and exits with
  code 1; \<open>main\<close> of \<^verbatim>\<open>pretool_sync.ts\<close> exits with code 0. Neither prints nor saves.
\<close>

lemma rendering_failure_example:
  "main_sync_letta_memory
     ((example_environment (Http 200 (Some [])))
        \<lparr>env_agent_response :=
           Http 200
             (Some (example_agent
                \<lparr>blocks := Some [\<lparr>label = js ''constructor'', description = [],
                                   block_value = js ''x''\<rparr>]\<rparr>))\<rparr>) =
   [UpdateClaudeMd (js ''/project'')
      (example_agent
         \<lparr>blocks := Some [\<lparr>label = js ''constructor'', description = [],
                            block_value = js ''x''\<rparr>]\<rparr>)
      (Some (js ''conv-1'')),
    Stderr, Exit 1]
   \<and> main_pretool_sync
     ((example_environment (Http 200 (Some [])))
        \<lparr>env_agent_response :=
           Http 200
             (Some (example_agent
                \<lparr>blocks := Some [\<lparr>label = js ''constructor'', description = [],
                                   block_value = js ''x''\<rparr>]\<rparr>))\<rparr>) =
   [Exit 0]"
  by (simp add: main_defs example_defs tracker_defs inherited_def object_prototype_members_def
        js_simps)

end
